theory Spec2Isabelle
  imports Main
begin

section \<open>Strings\<close>

text \<open>
  The TypeScript sources work on JavaScript strings. They are modelled as \<open>string\<close>
  (lists of 8-bit characters, read as code units below 256). Only the string methods
  the sources call are modelled, each with the separator or prefix the sources pass.
\<close>

text \<open>The white space and line terminators that \<open>String.prototype.trim\<close> removes,
  as far as they are code units below 256: TAB, LF, VT, FF, CR, SPACE, NBSP.\<close>

definition is_space :: "char \<Rightarrow> bool" where
  "is_space c \<longleftrightarrow> c \<in> set [CHR 0x09, CHR 0x0A, CHR 0x0B, CHR 0x0C, CHR 0x0D, CHR 0x20, CHR 0xA0]"

definition trim :: "string \<Rightarrow> string" where
  "trim s = rev (dropWhile is_space (rev (dropWhile is_space s)))"

text \<open>\<open>s.split(c)\<close> for a one-character separator: every occurrence separates, and a
  string without the separator (also the empty string) gives one piece.\<close>

fun split_on :: "char \<Rightarrow> string \<Rightarrow> string list" where
  "split_on c [] = [[]]"
| "split_on c (x # xs) =
     (if x = c then [] # split_on c xs
      else (case split_on c xs of
              [] \<Rightarrow> [[x]]
            | p # ps \<Rightarrow> (x # p) # ps))"

definition startsWith :: "string \<Rightarrow> string \<Rightarrow> bool" where
  "startsWith s p \<longleftrightarrow> take (length p) s = p"

text \<open>\<open>s.slice(1, -1)\<close>: without the first and the last code unit.\<close>

definition slice_1_m1 :: "string \<Rightarrow> string" where
  "slice_1_m1 s = butlast (tl s)"

text \<open>The character classes of the regular expressions in the sources.\<close>

definition is_upper :: "char \<Rightarrow> bool" where
  "is_upper c \<longleftrightarrow> c \<in> set ''ABCDEFGHIJKLMNOPQRSTUVWXYZ''"

definition is_lower :: "char \<Rightarrow> bool" where
  "is_lower c \<longleftrightarrow> c \<in> set ''abcdefghijklmnopqrstuvwxyz''"

definition is_alpha :: "char \<Rightarrow> bool" where
  "is_alpha c \<longleftrightarrow> is_upper c \<or> is_lower c"

definition is_digit :: "char \<Rightarrow> bool" where
  "is_digit c \<longleftrightarrow> c \<in> set ''0123456789''"

text \<open>Decimal rendering of an integer, as a template literal renders an integral number.\<close>

definition digit_char :: "nat \<Rightarrow> char" where
  "digit_char d = ''0123456789'' ! (d mod 10)"

fun string_of_nat :: "nat \<Rightarrow> string" where
  "string_of_nat n =
     (if n < 10 then [digit_char n] else string_of_nat (n div 10) @ [digit_char (n mod 10)])"

definition string_of_int :: "int \<Rightarrow> string" where
  "string_of_int i = (if i < 0 then CHR ''-'' # string_of_nat (nat (- i)) else string_of_nat (nat i))"

definition dquote :: string where
  "dquote = [CHR 0x22]"

text \<open>A string property in a condition: undefined and the empty string are falsy.\<close>

definition truthy :: "string option \<Rightarrow> bool" where
  "truthy v \<longleftrightarrow> (case v of None \<Rightarrow> False | Some s \<Rightarrow> s \<noteq> [])"

section \<open>Errors (TWErrorCode.ts, TWError.ts, TWErrorHandler.ts)\<close>

datatype TWErrorCode =
    MISSING_KEY_VALUE
  | MISSING_SECTION
  | UNKNOWN_SECTION
  | INVALID_TILE_SYNTAX
  | DUPLICATE_TILESET
  | DUPLICATE_LAYER
  | UNKNOWN_PROP_TYPE
  | UNKNOWN_PROP_FORMAT
  | NO_CONFIG_PROVIDED
  | INVALID_QUERY
  | MISSING_OR_INVALID_CONFIG
  | INVALID_TILE_CODE
  | TILESET_NOT_FOUND
  | FAILED_TO_LOAD_IMAGE
  | LAYER_ALREADY_EXISTS
  | LAYER_NOT_FOUND
  | INVALID_TILE_POSITION

fun code_string :: "TWErrorCode \<Rightarrow> string" where
  "code_string MISSING_KEY_VALUE = ''MISSING_KEY_VALUE''"
| "code_string MISSING_SECTION = ''MISSING_SECTION''"
| "code_string UNKNOWN_SECTION = ''UNKNOWN_SECTION''"
| "code_string INVALID_TILE_SYNTAX = ''INVALID_TILE_SYNTAX''"
| "code_string DUPLICATE_TILESET = ''DUPLICATE_TILESET''"
| "code_string DUPLICATE_LAYER = ''DUPLICATE_LAYER''"
| "code_string UNKNOWN_PROP_TYPE = ''UNKNOWN_PROP_TYPE''"
| "code_string UNKNOWN_PROP_FORMAT = ''UNKNOWN_PROP_FORMAT''"
| "code_string NO_CONFIG_PROVIDED = ''NO_CONFIG_PROVIDED''"
| "code_string INVALID_QUERY = ''INVALID_QUERY''"
| "code_string MISSING_OR_INVALID_CONFIG = ''MISSING_OR_INVALID_CONFIG''"
| "code_string INVALID_TILE_CODE = ''INVALID_TILE_CODE''"
| "code_string TILESET_NOT_FOUND = ''TILESET_NOT_FOUND''"
| "code_string FAILED_TO_LOAD_IMAGE = ''FAILED_TO_LOAD_IMAGE''"
| "code_string LAYER_ALREADY_EXISTS = ''LAYER_ALREADY_EXISTS''"
| "code_string LAYER_NOT_FOUND = ''LAYER_NOT_FOUND''"
| "code_string INVALID_TILE_POSITION = ''INVALID_TILE_POSITION''"

text \<open>
  What a call can throw: a \<open>TWError\<close> with its code, message, context and component, or
  the \<open>TypeError\<close> of the JavaScript runtime when a property of \<open>undefined\<close> is read,
  or when strict code assigns to a property of a primitive or to a read-only property.
\<close>

datatype error =
    TWError (err_code: TWErrorCode) (err_message: string) (err_context: "string option")
      (err_component: "string option")
  | TypeError

text \<open>\<open>new TWError(...)\<close> prefixes the message with the bracketed code.\<close>

definition newTWError :: "TWErrorCode \<Rightarrow> string \<Rightarrow> string option \<Rightarrow> string option \<Rightarrow> error" where
  "newTWError c msg ctx cmpn = TWError c (''['' @ code_string c @ ''] '' @ msg) ctx cmpn"

text \<open>
  The console, as the list of the calls made on it. \<open>ConsoleError\<close> carries the three
  arguments of \<open>console.error\<close>: format, style and value. \<open>ConsoleGroup\<close> is the call of
  \<open>console.group\<close> that \<open>log\<close> makes, with its fixed label and style (the label holds a
  character beyond code unit 255).
\<close>

datatype console_call =
    ConsoleGroup
  | ConsoleError string string string
  | ConsoleGroupEnd

text \<open>\<open>TWErrorHandler.log\<close>, on the fields of the error: code, message as the constructor
  built it, context and component.\<close>

definition TWErrorHandler_log ::
  "TWErrorCode \<Rightarrow> string \<Rightarrow> string option \<Rightarrow> string option \<Rightarrow> console_call list" where
  "TWErrorHandler_log c fullMessage ctx cmpn =
     [ConsoleGroup,
      ConsoleError ''%cCode: %s'' ''font-weight: bold;'' (code_string c),
      ConsoleError ''%cMessage: %s'' ''font-weight: bold;'' fullMessage]
     @ (case cmpn of
          None \<Rightarrow> []
        | Some v \<Rightarrow> if v = [] then []
                    else [ConsoleError ''%cComponent: %s'' ''font-weight: bold;'' v])
     @ (case ctx of
          None \<Rightarrow> []
        | Some v \<Rightarrow> if v = [] then []
                    else [ConsoleError ''%cContext: %s'' ''font-weight: bold;'' v])
     @ [ConsoleGroupEnd]"

text \<open>\<open>TWErrorHandler.throw\<close> builds the error, logs it and throws it: the console after
  the call, and the error thrown.\<close>

definition TWErrorHandler_throw ::
  "TWErrorCode \<Rightarrow> string \<Rightarrow> string option \<Rightarrow> string option \<Rightarrow> console_call list
     \<Rightarrow> console_call list \<times> (error + 'a)" where
  "TWErrorHandler_throw c msg ctx cmpn con =
     (con @ TWErrorHandler_log c (''['' @ code_string c @ ''] '' @ msg) ctx cmpn,
      Inl (newTWError c msg ctx cmpn))"

text \<open>
  Every \<open>TWError\<close> of the sources is thrown through \<open>TWErrorHandler.throw\<close> and logged
  in this way. The console is followed for the tile validator; the parser and the scene
  builder are modelled by what they return or throw, for which \<open>throw\<close> gives the error
  alone.
\<close>

definition throw :: "TWErrorCode \<Rightarrow> string \<Rightarrow> string option \<Rightarrow> string option \<Rightarrow> error + 'a" where
  "throw c msg ctx cmpn = snd (TWErrorHandler_throw c msg ctx cmpn [])"

section \<open>Tile validator (TileValidator.ts)\<close>

text \<open>
  \<open>/^[A-Za-z]+\d+$/.test(s)\<close>: the two classes are disjoint, so the match is the longest
  run of letters followed by digits up to the end of the string.
\<close>

definition tile_regex_test :: "string \<Rightarrow> bool" where
  "tile_regex_test s \<longleftrightarrow>
     (let rest = dropWhile is_alpha s
      in takeWhile is_alpha s \<noteq> [] \<and> rest \<noteq> [] \<and> list_all is_digit rest)"

definition invalid_tile_message :: "string \<Rightarrow> string" where
  "invalid_tile_message trimmed =
     ''Invalid tile format: '' @ dquote @ trimmed @ dquote
       @ ''. Expected like G0 or S1 or 0 for empty tiles.''"

text \<open>\<open>validateTileFormat\<close>, started on a console: the console after the call, and the
  normal return or the error thrown.\<close>

definition validateTileFormat_console ::
  "string \<Rightarrow> string \<Rightarrow> console_call list \<Rightarrow> console_call list \<times> (error + unit)" where
  "validateTileFormat_console tile ctx con =
     (let trimmed = trim tile
      in if trimmed = ''0'' then (con, Inr ())
         else if \<not> tile_regex_test trimmed
           then TWErrorHandler_throw INVALID_TILE_SYNTAX (invalid_tile_message trimmed)
                  (Some ctx) (Some ''TileValidator'') con
         else (con, Inr ()))"

text \<open>The return or the error alone, for the callers.\<close>

definition validateTileFormat :: "string \<Rightarrow> string \<Rightarrow> error + unit" where
  "validateTileFormat tile ctx = snd (validateTileFormat_console tile ctx [])"

section \<open>Configuration (twm-config.ts)\<close>

record TWMLayer =
  name :: string
  tiles :: "string list list"

record TWMTileset =
  ts_id :: string
  tileset :: string
  short :: string

text \<open>The three props tables, by their own properties; a missing identifier is
  \<open>None\<close>.\<close>

record TWMPropsMap =
  props_tilesets :: "string \<rightharpoonup> (string \<rightharpoonup> string)"
  props_layers :: "string \<rightharpoonup> (string \<rightharpoonup> string)"
  props_tiles :: "string \<rightharpoonup> (string \<rightharpoonup> string)"

text \<open>
  \<open>TWMConfig\<close>, with the types of \<open>main\<close>, of the layers and of the tilesets left open:
  the parser builds a \<open>Partial<TWMConfig>\<close> out of partial objects and returns it through
  an unchecked cast; the scene builder reads a config of the declared types.
\<close>

record ('m, 'l, 't) TWMConfig =
  main :: 'm
  layers :: "'l list"
  tilesets :: "'t list"
  props :: TWMPropsMap

record TWMMainConfig =
  tileSize :: int
  width :: int
  height :: int

type_synonym SceneConfig = "(TWMMainConfig, TWMLayer, TWMTileset) TWMConfig"

section \<open>Configuration parser (TWMConfigParser.ts)\<close>

text \<open>
  \<open>Number(value)\<close>. The result is given as an integer where the text is empty or an
  optionally signed run of decimal digits that a double holds exactly; for every other
  text (NaN, fractions, exponents, other literal forms) the text itself is kept.
\<close>

datatype jsnumber = Decimal int | OtherNumber string

definition digit_value :: "char \<Rightarrow> int" where
  "digit_value c = of_char c - 48"

definition decimal_value :: "string \<Rightarrow> int" where
  "decimal_value ds = foldl (\<lambda>a c. 10 * a + digit_value c) 0 ds"

definition Number :: "string \<Rightarrow> jsnumber" where
  "Number s =
     (let t = trim s;
          neg = (t \<noteq> [] \<and> hd t = CHR ''-'');
          ds = (if t \<noteq> [] \<and> (hd t = CHR ''-'' \<or> hd t = CHR ''+'') then tl t else t)
      in if t = [] then Decimal 0
         else if ds \<noteq> [] \<and> list_all is_digit ds \<and> decimal_value ds \<le> 9007199254740992
           then Decimal (if neg then - decimal_value ds else decimal_value ds)
         else OtherNumber t)"

subsection \<open>Plain objects and \<open>Object.prototype\<close>\<close>

text \<open>
  The parser state is made of plain objects, and the keys of the props tables come from
  the text. A property read on a plain object gives the object's own property and, where
  it has none of that name, the property of \<open>Object.prototype\<close>. With the identifier
  \<open>__proto__\<close> a props line reads \<open>Object.prototype\<close> itself out of a table and writes
  its key there, where every plain object then reads it. The model keeps the own
  properties in the records and maps of the state, and beside them:
  \<^item> \<open>objectPrototype\<close>: the string properties that props lines have put on
    \<open>Object.prototype\<close> (over the methods it has in a fresh page);
  \<^item> \<open>builtinProps\<close>: the string properties that props lines have put on the methods of
    \<open>Object.prototype\<close>, by the name of the method.
  A parse starts on a fresh page (both empty). The code of a class is strict, so an
  assignment to a property of a primitive string, or to a read-only property, throws a
  TypeError.
\<close>

record Globals =
  objectPrototype :: "string \<rightharpoonup> string"
  builtinProps :: "string \<rightharpoonup> (string \<rightharpoonup> string)"

text \<open>The function-valued properties of \<open>Object.prototype\<close>; \<open>constructor\<close> is
  \<open>Object\<close>. Its one other property is the accessor \<open>__proto__\<close>.\<close>

definition objectPrototypeMethods :: "string list" where
  "objectPrototypeMethods =
     [''constructor'', ''__defineGetter__'', ''__defineSetter__'', ''hasOwnProperty'',
      ''__lookupGetter__'', ''__lookupSetter__'', ''isPrototypeOf'', ''propertyIsEnumerable'',
      ''toString'', ''valueOf'', ''toLocaleString'']"

text \<open>
  The keys whose assignment on such a method throws: \<open>length\<close> and \<open>name\<close> are read-only
  on every function, \<open>caller\<close> and \<open>arguments\<close> are accessors of \<open>Function.prototype\<close>
  whose setter throws, and \<open>prototype\<close> is read-only on \<open>Object\<close>.
\<close>

definition readOnlyOnMethod :: "string \<Rightarrow> string \<Rightarrow> bool" where
  "readOnlyOnMethod identifier propKey \<longleftrightarrow>
     propKey \<in> set [''length'', ''name'', ''caller'', ''arguments'']
     \<or> (identifier = ''constructor'' \<and> propKey = ''prototype'')"

text \<open>\<open>obj.key\<close> for one of the keys \<open>name\<close>, \<open>id\<close>, \<open>tileset\<close>, \<open>short\<close>, \<open>main\<close>,
  \<open>tiles\<close> (none is a method of \<open>Object.prototype\<close>), given the own property.\<close>

definition inherited :: "string option \<Rightarrow> string \<Rightarrow> Globals \<Rightarrow> string option" where
  "inherited own key g = (case own of Some v \<Rightarrow> Some v | None \<Rightarrow> objectPrototype g key)"

text \<open>An undefined value in a template literal.\<close>

definition shown :: "string option \<Rightarrow> string" where
  "shown v = (case v of None \<Rightarrow> ''undefined'' | Some s \<Rightarrow> s)"

subsection \<open>Parser state\<close>

text \<open>The object that \<open>handleMain\<close> fills by \<open>main[key] = Number(value)\<close>, by its own
  properties.\<close>

type_synonym ParsedMain = "string \<rightharpoonup> jsnumber"

text \<open>\<open>Partial<TWMLayer>\<close> and \<open>Partial<TWMTileset>\<close>, by their own properties: every
  field may be missing.\<close>

record PartialLayer =
  cl_name :: "string option"
  cl_tiles :: "string list list option"

record PartialTileset =
  t_id :: "string option"
  t_tileset :: "string option"
  t_short :: "string option"

type_synonym ParsedConfig = "(ParsedMain option, PartialLayer, PartialTileset) TWMConfig"

record ParserState =
  currentSection :: string
  currentLayer :: PartialLayer
  tempTileset :: PartialTileset
  config :: ParsedConfig
  globals :: Globals

text \<open>The globals of a fresh page.\<close>

definition freshPage :: Globals where
  "freshPage = \<lparr>objectPrototype = Map.empty, builtinProps = Map.empty\<rparr>"

definition initialState :: ParserState where
  "initialState =
     \<lparr>currentSection = [],
      currentLayer = \<lparr>cl_name = None, cl_tiles = None\<rparr>,
      tempTileset = \<lparr>t_id = None, t_tileset = None, t_short = None\<rparr>,
      config = \<lparr>main = None, layers = [], tilesets = [],
                props = \<lparr>props_tilesets = Map.empty, props_layers = Map.empty,
                          props_tiles = Map.empty\<rparr>\<rparr>,
      globals = freshPage\<rparr>"

text \<open>\<open>xs[1]\<close>, undefined when the array is shorter.\<close>

definition second :: "'a list \<Rightarrow> 'a option" where
  "second xs = (case xs of _ # b # _ \<Rightarrow> Some b | _ \<Rightarrow> None)"

subsection \<open>Section headers\<close>

text \<open>
  \<open>if (state.currentLayer.name) config.layers.push(state.currentLayer)\<close>: the object is
  pushed as it is; no later line changes it, since the next header puts a new object in
  its place.
\<close>

definition pushCurrentLayer :: "ParserState \<Rightarrow> ParserState" where
  "pushCurrentLayer st =
     (if truthy (inherited (cl_name (currentLayer st)) ''name'' (globals st))
      then st\<lparr>config := (config st)\<lparr>layers := layers (config st) @ [currentLayer st]\<rparr>\<rparr>
      else st)"

text \<open>The section name after a prefix with \<open>:\<close> has a second piece, so the \<open>id\<close> and the
  \<open>name\<close> that the object literals set are strings.\<close>

definition handleSectionHeader :: "string \<Rightarrow> ParserState \<Rightarrow> error + ParserState" where
  "handleSectionHeader line st =
     (let sect = slice_1_m1 line
      in if sect = ''main'' then Inr (st\<lparr>currentSection := ''main''\<rparr>)
         else if startsWith sect ''tileset:'' then
           Inr (st\<lparr>currentSection := ''tileset'',
                   tempTileset := \<lparr>t_id = second (split_on CHR '':'' sect),
                                   t_tileset = None, t_short = None\<rparr>\<rparr>)
         else if startsWith sect ''layer:'' then
           Inr ((pushCurrentLayer st)\<lparr>currentSection := ''layer'',
                   currentLayer := \<lparr>cl_name = second (split_on CHR '':'' sect),
                                    cl_tiles = Some []\<rparr>\<rparr>)
         else if sect = ''props'' then Inr (st\<lparr>currentSection := ''props''\<rparr>)
         else throw UNKNOWN_SECTION (''Unknown section header: ['' @ sect @ '']'')
                (Some line) (Some ''Parser''))"

subsection \<open>Lines of the main section\<close>

text \<open>
  \<open>handleMain\<close>, with the globals it reads. Where the config has no \<open>main\<close> of its own
  and \<open>Object.prototype\<close> holds a non-empty string under \<open>main\<close>, \<open>!config.main\<close> is false,
  no record is made, and the assignment of the setting goes to that string and throws.
\<close>

definition handleMain ::
  "string \<Rightarrow> string \<Rightarrow> ParsedConfig \<Rightarrow> Globals \<Rightarrow> error + ParsedConfig" where
  "handleMain key val c g =
     (case main c of
        Some m \<Rightarrow>
          if key \<notin> set [''tileSize'', ''width'', ''height''] then
            throw MISSING_KEY_VALUE (''Unknown main property '' @ dquote @ key @ dquote)
              (Some key) (Some ''Parser'')
          else Inr (c\<lparr>main := Some (m(key \<mapsto> Number val))\<rparr>)
      | None \<Rightarrow>
          if key \<notin> set [''tileSize'', ''width'', ''height''] then
            throw MISSING_KEY_VALUE (''Unknown main property '' @ dquote @ key @ dquote)
              (Some key) (Some ''Parser'')
          else if truthy (objectPrototype g ''main'') then Inl TypeError
          else Inr (c\<lparr>main := Some [key \<mapsto> Number val]\<rparr>))"

subsection \<open>Lines of a tileset section\<close>

text \<open>The fields of the in-progress record are read with inheritance, those of the
  finalized records too; the record is pushed with its own properties.\<close>

definition handleTileset :: "string \<Rightarrow> string \<Rightarrow> ParserState \<Rightarrow> error + ParserState" where
  "handleTileset key val st =
     (let t = (if key = ''tileset'' then (tempTileset st)\<lparr>t_tileset := Some val\<rparr>
               else if key = ''short'' then (tempTileset st)\<lparr>t_short := Some val\<rparr>
               else tempTileset st);
          st1 = st\<lparr>tempTileset := t\<rparr>;
          g = globals st;
          i = inherited (t_id t) ''id'' g;
          u = inherited (t_tileset t) ''tileset'' g;
          s = inherited (t_short t) ''short'' g
      in if truthy i \<and> truthy u \<and> truthy s then
           if list_ex (\<lambda>ts. inherited (t_short ts) ''short'' g = s) (tilesets (config st1)) then
             throw DUPLICATE_TILESET (''Duplicate tileset short '' @ dquote @ shown s @ dquote)
               (Some val) (Some ''Parser'')
           else if list_ex (\<lambda>ts. inherited (t_id ts) ''id'' g = i) (tilesets (config st1)) then
             throw DUPLICATE_TILESET (''Duplicate tileset id '' @ dquote @ shown i @ dquote)
               (Some val) (Some ''Parser'')
           else Inr (st1\<lparr>config := (config st1)\<lparr>tilesets := tilesets (config st1) @ [t]\<rparr>,
                        tempTileset := \<lparr>t_id = None, t_tileset = None, t_short = None\<rparr>\<rparr>)
         else Inr st1)"

subsection \<open>Lines of a layer section\<close>

text \<open>The cells of one row: split on the comma, trim each cell, validate it with the row
  as context; the first invalid cell throws.\<close>

fun validateCells :: "string \<Rightarrow> string list \<Rightarrow> error + string list" where
  "validateCells row [] = Inr []"
| "validateCells row (cell # cells) =
     (let trimmed = trim cell
      in case validateTileFormat trimmed row of
           Inl e \<Rightarrow> Inl e
         | Inr _ \<Rightarrow> (case validateCells row cells of
                       Inl e \<Rightarrow> Inl e
                     | Inr r \<Rightarrow> Inr (trimmed # r)))"

fun parseRows :: "string list \<Rightarrow> error + string list list" where
  "parseRows [] = Inr []"
| "parseRows (row # rows) =
     (case validateCells row (split_on CHR '','' row) of
        Inl e \<Rightarrow> Inl e
      | Inr r \<Rightarrow> (case parseRows rows of
                    Inl e \<Rightarrow> Inl e
                  | Inr rs \<Rightarrow> Inr (r # rs)))"

text \<open>\<open>t.name === state.currentLayer.name\<close> compares what the two reads give, undefined
  included.\<close>

definition handleLayer :: "string \<Rightarrow> string \<Rightarrow> ParserState \<Rightarrow> error + ParserState" where
  "handleLayer key val st =
     (let g = globals st;
          cl = (if cl_tiles (currentLayer st) = None \<and> \<not> truthy (objectPrototype g ''tiles'')
                then (currentLayer st)\<lparr>cl_tiles := Some []\<rparr>
                else currentLayer st);
          st1 = st\<lparr>currentLayer := cl\<rparr>
      in if key = ''tiles'' then
           if list_ex (\<lambda>t. inherited (cl_name t) ''name'' g = inherited (cl_name cl) ''name'' g)
                (layers (config st1)) then
             throw DUPLICATE_LAYER
               (''Duplicate layer name '' @ dquote @ shown (inherited (cl_name cl) ''name'' g)
                  @ dquote)
               (Some val) (Some ''Parser'')
           else
             (let rows = filter (\<lambda>r. r \<noteq> []) (map trim (split_on CHR '';'' val))
              in case parseRows rows of
                   Inl e \<Rightarrow> Inl e
                 | Inr grid \<Rightarrow> Inr (st1\<lparr>currentLayer := cl\<lparr>cl_tiles := Some grid\<rparr>\<rparr>))
         else Inr st1)"

subsection \<open>Lines of the props section\<close>

text \<open>What \<open>table[identifier]\<close> gives: the own entry; for \<open>__proto__\<close>,
  \<open>Object.prototype\<close>; a string that a props line has put on \<open>Object.prototype\<close>; one of
  its methods; or undefined.\<close>

datatype table_value =
    OwnEntry "string \<rightharpoonup> string"
  | TheObjectPrototype
  | InheritedString string
  | InheritedMethod
  | Undefined

definition tableRead ::
  "Globals \<Rightarrow> (string \<rightharpoonup> (string \<rightharpoonup> string)) \<Rightarrow> string \<Rightarrow> table_value" where
  "tableRead g table identifier =
     (case table identifier of
        Some m \<Rightarrow> OwnEntry m
      | None \<Rightarrow>
          if identifier = ''__proto__'' then TheObjectPrototype
          else (case objectPrototype g identifier of
                  Some s \<Rightarrow> InheritedString s
                | None \<Rightarrow>
                    if identifier \<in> set objectPrototypeMethods then InheritedMethod
                    else Undefined))"

text \<open>
  \<open>table[identifier] ??= {}; table[identifier][propKey] = value\<close>: the table and the
  globals afterwards. Only an undefined read makes a new entry. The value is a string, so
  the setter of \<open>__proto__\<close> drops it, whatever the target; on a string every other
  assignment throws.
\<close>

definition setProp ::
  "Globals \<Rightarrow> (string \<rightharpoonup> (string \<rightharpoonup> string)) \<Rightarrow> string \<Rightarrow> string \<Rightarrow> string
     \<Rightarrow> error + (string \<rightharpoonup> (string \<rightharpoonup> string)) \<times> Globals" where
  "setProp g table identifier propKey val =
     (case tableRead g table identifier of
        OwnEntry m \<Rightarrow>
          if propKey = ''__proto__'' then Inr (table, g)
          else Inr (table(identifier \<mapsto> m(propKey \<mapsto> val)), g)
      | Undefined \<Rightarrow>
          if propKey = ''__proto__'' then Inr (table(identifier \<mapsto> Map.empty), g)
          else Inr (table(identifier \<mapsto> [propKey \<mapsto> val]), g)
      | TheObjectPrototype \<Rightarrow>
          if propKey = ''__proto__'' then Inr (table, g)
          else Inr (table, g\<lparr>objectPrototype := (objectPrototype g)(propKey \<mapsto> val)\<rparr>)
      | InheritedString s \<Rightarrow>
          if propKey = ''__proto__'' then Inr (table, g) else Inl TypeError
      | InheritedMethod \<Rightarrow>
          if propKey = ''__proto__'' then Inr (table, g)
          else if readOnlyOnMethod identifier propKey then Inl TypeError
          else Inr (table,
                 g\<lparr>builtinProps := (builtinProps g)(identifier \<mapsto>
                      (case builtinProps g identifier of
                         None \<Rightarrow> [propKey \<mapsto> val]
                       | Some m \<Rightarrow> m(propKey \<mapsto> val)))\<rparr>))"

definition handleProps :: "string \<Rightarrow> string \<Rightarrow> ParserState \<Rightarrow> error + ParserState" where
  "handleProps key val st =
     (case split_on CHR ''.'' key of
        ty # identifier # propKey # _ \<Rightarrow>
          (let p = props (config st); g = globals st
           in if ty = ''tileset'' then
                (case setProp g (props_tilesets p) identifier propKey val of
                   Inl e \<Rightarrow> Inl e
                 | Inr (table, g') \<Rightarrow>
                     Inr (st\<lparr>config := (config st)\<lparr>props := p\<lparr>props_tilesets := table\<rparr>\<rparr>,
                             globals := g'\<rparr>))
              else if ty = ''layer'' then
                (case setProp g (props_layers p) identifier propKey val of
                   Inl e \<Rightarrow> Inl e
                 | Inr (table, g') \<Rightarrow>
                     Inr (st\<lparr>config := (config st)\<lparr>props := p\<lparr>props_layers := table\<rparr>\<rparr>,
                             globals := g'\<rparr>))
              else if ty = ''tile'' then
                (case setProp g (props_tiles p) identifier propKey val of
                   Inl e \<Rightarrow> Inl e
                 | Inr (table, g') \<Rightarrow>
                     Inr (st\<lparr>config := (config st)\<lparr>props := p\<lparr>props_tiles := table\<rparr>\<rparr>,
                             globals := g'\<rparr>))
              else throw UNKNOWN_PROP_TYPE (''Unknown props type '' @ dquote @ ty @ dquote)
                     (Some key) (Some ''Parser''))
      | _ \<Rightarrow> throw UNKNOWN_PROP_FORMAT ''Invalid props key format'' (Some key) (Some ''Parser''))"

subsection \<open>The loop over the lines\<close>

definition handleKeyValue :: "string \<Rightarrow> string \<Rightarrow> ParserState \<Rightarrow> error + ParserState" where
  "handleKeyValue key val st =
     (if currentSection st = ''main'' then
        (case handleMain key val (config st) (globals st) of
           Inl e \<Rightarrow> Inl e
         | Inr c \<Rightarrow> Inr (st\<lparr>config := c\<rparr>))
      else if currentSection st = ''tileset'' then handleTileset key val st
      else if currentSection st = ''layer'' then handleLayer key val st
      else if currentSection st = ''props'' then handleProps key val st
      else throw UNKNOWN_SECTION
             (''Unhandled section '' @ dquote @ currentSection st @ dquote)
             (Some key) (Some ''Parser''))"

text \<open>
  One turn of the loop over the lines. \<open>const [keyRaw, valueRaw] = line.split('=')\<close>
  takes the first two pieces of the split; \<open>valueRaw\<close> is undefined when there is one.
\<close>

definition processLine :: "string \<Rightarrow> ParserState \<Rightarrow> error + ParserState" where
  "processLine rawLine st =
     (let line = trim rawLine
      in if line = [] \<or> startsWith line ''#'' then Inr st
         else if startsWith line ''['' then handleSectionHeader line st
         else (case split_on CHR ''='' line of
                 keyRaw # valueRaw # _ \<Rightarrow> handleKeyValue (trim keyRaw) (trim valueRaw) st
               | _ \<Rightarrow> throw MISSING_KEY_VALUE ''Expected key=value format''
                        (Some line) (Some ''Parser'')))"

fun processLines :: "string list \<Rightarrow> ParserState \<Rightarrow> error + ParserState" where
  "processLines [] st = Inr st"
| "processLines (rawLine # rest) st =
     (case processLine rawLine st of
        Inl e \<Rightarrow> Inl e
      | Inr st' \<Rightarrow> processLines rest st')"

text \<open>
  What \<open>parseConfig\<close> does once the text is fetched: the last layer is pushed, a falsy
  \<open>state.config.main\<close> is an error, and the accumulated config is returned as it is. The
  result is given with the globals, through which the caller reads it.
\<close>

definition finishParse :: "ParserState \<Rightarrow> error + ParsedConfig \<times> Globals" where
  "finishParse st =
     (let st1 = pushCurrentLayer st
      in if main (config st1) = None then
           if truthy (objectPrototype (globals st1) ''main'') then Inr (config st1, globals st1)
           else throw MISSING_SECTION ''Missing [main] section'' None (Some ''Parser'')
         else Inr (config st1, globals st1))"

definition parseConfig :: "string \<Rightarrow> error + ParsedConfig \<times> Globals" where
  "parseConfig raw =
     (case processLines (split_on (CHR 0x0A) raw) initialState of
        Inl e \<Rightarrow> Inl e
      | Inr st \<Rightarrow> finishParse st)"

section \<open>Scene builder (SceneBuilder.ts, SceneBuilderUtils.ts)\<close>

text \<open>
  Coordinates and the sizes of \<open>main\<close> are modelled as integers (the JavaScript numbers
  that are integral). Of the DOM the state keeps what the methods read back: for each
  layer grid appended to the scene wrapper, the layer name in its class and the number of
  its tile elements. Layer names are taken to be plain identifiers, so that the selector
  \<open>.tw-layer--name\<close> finds the first grid of that name. Images load asynchronously and
  their failures never reach the caller; they are not modelled.
\<close>

record TileMetadata =
  tile :: string
  layerName :: string
  tilesetShort :: string
  tilesetId :: string
  mprops :: "string \<rightharpoonup> string"

record 'cb SceneEventSubscriber =
  onTileClicked :: "'cb list"
  onTileHover :: "'cb list"
  onTileHoverEnd :: "'cb list"

record 'cb SceneBuilder =
  sceneConfig :: "SceneConfig"
  hiddenLayers :: "string list"
  runtimeLayers :: "TWMLayer list"
  eventSubscriber :: "'cb SceneEventSubscriber"
  lastHoveredTile :: "int \<times> int"
  domLayers :: "(string \<times> nat) list"

text \<open>\<open>Array.from({length: n}, ...)\<close> has no element when \<open>n\<close> is negative.\<close>

definition createEmpty2DArray :: "int \<Rightarrow> int \<Rightarrow> string list list" where
  "createEmpty2DArray w h = replicate (nat h) (replicate (nat w) ''0'')"

definition tilePosContext :: "string \<Rightarrow> int \<Rightarrow> int \<Rightarrow> string" where
  "tilePosContext tileCode x y =
     ''Tile: '' @ tileCode @ '', Pos: ('' @ string_of_int x @ '','' @ string_of_int y @ '')''"

text \<open>
  \<open>createTileElement\<close>, as far as it can throw: the result is the tileset the tile is cut
  from, \<open>None\<close> for the hidden element of an empty cell. The short is the first group of
  \<open>/^([A-Za-z]+)(\d+)$/\<close>, matched on the tile code as passed (not trimmed).
\<close>

definition createTileElement ::
  "string \<Rightarrow> int \<Rightarrow> int \<Rightarrow> SceneConfig \<Rightarrow> error + TWMTileset option" where
  "createTileElement tileCode x y c =
     (if tileCode = ''0'' then Inr None
      else case validateTileFormat tileCode (tilePosContext tileCode x y) of
             Inl e \<Rightarrow> Inl e
           | Inr _ \<Rightarrow>
               if \<not> tile_regex_test tileCode then
                 throw INVALID_TILE_CODE (''Invalid tile code: '' @ dquote @ tileCode @ dquote)
                   (Some (tilePosContext tileCode x y)) (Some ''SceneBuilderUtils'')
               else
                 (let sh = takeWhile is_alpha tileCode
                  in case find (\<lambda>ts. short ts = sh) (tilesets c) of
                       None \<Rightarrow>
                         throw TILESET_NOT_FOUND
                           (''Tileset short '' @ dquote @ sh @ dquote @ '' not found.'')
                           (Some (''TileCode: '' @ tileCode @ '', Short: '' @ sh))
                           (Some ''SceneBuilderUtils'')
                     | Some ts \<Rightarrow> Inr (Some ts)))"

text \<open>\<open>createGridElement\<close>: one tile element per cell, row by row; the result is the
  number of tile elements of the grid.\<close>

fun createRowElements ::
  "SceneConfig \<Rightarrow> int \<Rightarrow> int \<Rightarrow> string list \<Rightarrow> error + nat" where
  "createRowElements c y x [] = Inr 0"
| "createRowElements c y x (tileCode # rest) =
     (case createTileElement tileCode x y c of
        Inl e \<Rightarrow> Inl e
      | Inr _ \<Rightarrow> (case createRowElements c y (x + 1) rest of
                    Inl e \<Rightarrow> Inl e
                  | Inr n \<Rightarrow> Inr (Suc n)))"

fun createGridRows ::
  "SceneConfig \<Rightarrow> int \<Rightarrow> string list list \<Rightarrow> error + nat" where
  "createGridRows c y [] = Inr 0"
| "createGridRows c y (row # rows) =
     (case createRowElements c y 0 row of
        Inl e \<Rightarrow> Inl e
      | Inr n \<Rightarrow> (case createGridRows c (y + 1) rows of
                    Inl e \<Rightarrow> Inl e
                  | Inr m \<Rightarrow> Inr (n + m)))"

definition createGridElement ::
  "TWMLayer \<Rightarrow> SceneConfig \<Rightarrow> error + string \<times> nat" where
  "createGridElement layer c =
     (case createGridRows c 0 (tiles layer) of
        Inl e \<Rightarrow> Inl e
      | Inr n \<Rightarrow> Inr (name layer, n))"

fun createGridElements ::
  "SceneConfig \<Rightarrow> TWMLayer list \<Rightarrow> error + (string \<times> nat) list" where
  "createGridElements c [] = Inr []"
| "createGridElements c (layer # rest) =
     (case createGridElement layer c of
        Inl e \<Rightarrow> Inl e
      | Inr g \<Rightarrow> (case createGridElements c rest of
                    Inl e \<Rightarrow> Inl e
                  | Inr gs \<Rightarrow> Inr (g # gs)))"

text \<open>\<open>buildScene\<close> replaces the content of the container only after every grid is
  created, so a tile that throws leaves the builder as it was.\<close>

definition buildScene :: "'cb SceneBuilder \<Rightarrow> error + 'cb SceneBuilder" where
  "buildScene s =
     (case createGridElements (sceneConfig s) (layers (sceneConfig s) @ runtimeLayers s) of
        Inl e \<Rightarrow> Inl e
      | Inr gs \<Rightarrow> Inr (s\<lparr>domLayers := gs\<rparr>))"

text \<open>The constructor; \<open>found\<close> tells whether \<open>document.querySelector(selector)\<close> gave an
  element. A typed config has \<open>layers\<close>, \<open>main\<close> and \<open>tilesets\<close>.\<close>

definition newSceneBuilder ::
  "string \<Rightarrow> bool \<Rightarrow> SceneConfig \<Rightarrow> error + 'cb SceneBuilder" where
  "newSceneBuilder selector found c =
     (if \<not> found then
        throw INVALID_QUERY
          (''Invalid query with selector: '' @ dquote @ selector @ dquote @ ''. No element found.'')
          (Some (''selector: '' @ selector)) (Some ''SceneBuilder'')
      else buildScene
        \<lparr>sceneConfig = c, hiddenLayers = [], runtimeLayers = [],
         eventSubscriber = \<lparr>onTileClicked = [], onTileHover = [], onTileHoverEnd = []\<rparr>,
         lastHoveredTile = (- 1, - 1), domLayers = []\<rparr>)"

text \<open>
  A method that throws after it has changed the builder leaves the change in place, so
  the methods below return the error thrown, if any, together with the builder afterwards.
\<close>

definition addRuntimeLayerToDOM ::
  "string \<Rightarrow> 'cb SceneBuilder \<Rightarrow> error option \<times> 'cb SceneBuilder" where
  "addRuntimeLayerToDOM lname s =
     (let m = main (sceneConfig s);
          newLayer = \<lparr>name = lname, tiles = createEmpty2DArray (width m) (height m)\<rparr>;
          s1 = s\<lparr>runtimeLayers := runtimeLayers s @ [newLayer]\<rparr>
      in case createGridElement newLayer (sceneConfig s) of
           Inl e \<Rightarrow> (Some e, s1)
         | Inr g \<Rightarrow> (None, s1\<lparr>domLayers := domLayers s1 @ [g]\<rparr>))"

definition createRuntimeLayer ::
  "string \<Rightarrow> 'cb SceneBuilder \<Rightarrow> error option \<times> 'cb SceneBuilder" where
  "createRuntimeLayer lname s =
     (if list_ex (\<lambda>l. name l = lname) (layers (sceneConfig s))
         \<or> list_ex (\<lambda>l. name l = lname) (runtimeLayers s) then
        (Some (newTWError LAYER_ALREADY_EXISTS
                 (''Layer with name '' @ dquote @ lname @ dquote @ '' already exists.'')
                 (Some (''layerName: '' @ lname)) (Some ''SceneBuilder'')), s)
      else
        (let m = main (sceneConfig s);
             tls = createEmpty2DArray (width m) (height m)
         in addRuntimeLayerToDOM lname
              (s\<lparr>runtimeLayers := runtimeLayers s @ [\<lparr>name = lname, tiles = tls\<rparr>]\<rparr>)))"

text \<open>\<open>layer?.tiles?.[y]?.[x] ?? "0"\<close>\<close>

definition cellAt :: "string list list \<Rightarrow> int \<Rightarrow> int \<Rightarrow> string" where
  "cellAt g x y =
     (if 0 \<le> y \<and> nat y < length g \<and> 0 \<le> x \<and> nat x < length (g ! nat y)
      then g ! nat y ! nat x else ''0'')"

definition getTileCodeFromLayer :: "string \<Rightarrow> int \<Rightarrow> int \<Rightarrow> 'cb SceneBuilder \<Rightarrow> string" where
  "getTileCodeFromLayer lname x y s =
     (case find (\<lambda>l. name l = lname) (runtimeLayers s) of
        Some l \<Rightarrow> cellAt (tiles l) x y
      | None \<Rightarrow> (case find (\<lambda>l. name l = lname) (layers (sceneConfig s)) of
                   Some l \<Rightarrow> cellAt (tiles l) x y
                 | None \<Rightarrow> ''0''))"

text \<open>\<open>updateTileInDOM\<close> returns early when the layer has no grid element or the grid has
  no tile element at the index; otherwise it creates the new tile element, which can throw.\<close>

definition updateTileInDOM ::
  "string \<Rightarrow> int \<Rightarrow> int \<Rightarrow> 'cb SceneBuilder \<Rightarrow> error option \<times> 'cb SceneBuilder" where
  "updateTileInDOM lname x y s =
     (case find (\<lambda>g. fst g = lname) (domLayers s) of
        None \<Rightarrow> (None, s)
      | Some g \<Rightarrow>
          (let tileIndex = y * width (main (sceneConfig s)) + x
           in if \<not> (0 \<le> tileIndex \<and> tileIndex < int (snd g)) then (None, s)
              else (case createTileElement (getTileCodeFromLayer lname x y s) x y (sceneConfig s) of
                      Inl e \<Rightarrow> (Some e, s)
                    | Inr _ \<Rightarrow> (None, s))))"

text \<open>
  \<open>layer.tiles[y][x] = v\<close> for \<open>x, y \<ge> 0\<close>: a missing row is a TypeError. A write beyond
  the end of a row would grow the JavaScript array and leave holes, which a list of
  strings cannot hold; the grids of runtime layers have \<open>width\<close> cells in each row and the
  callers check \<open>x < width\<close> first, and the model says \<open>None\<close> there.
\<close>

definition setCell :: "string list list \<Rightarrow> nat \<Rightarrow> nat \<Rightarrow> string \<Rightarrow> (error + string list list) option" where
  "setCell g x y v =
     (if \<not> y < length g then Some (Inl TypeError)
      else if x < length (g ! y) then Some (Inr (g[y := (g ! y)[x := v]]))
      else None)"

text \<open>The object that \<open>find\<close> returns is changed in place: the first layer of that name.\<close>

fun updateFirst :: "('a \<Rightarrow> bool) \<Rightarrow> ('a \<Rightarrow> 'a) \<Rightarrow> 'a list \<Rightarrow> 'a list" where
  "updateFirst P f [] = []"
| "updateFirst P f (a # as) = (if P a then f a # as else a # updateFirst P f as)"

definition positionContext :: "int \<Rightarrow> int \<Rightarrow> int \<Rightarrow> int \<Rightarrow> string" where
  "positionContext x y w h =
     ''x: '' @ string_of_int x @ '', y: '' @ string_of_int y
       @ '', width: '' @ string_of_int w @ '', height: '' @ string_of_int h"

definition addTile ::
  "string \<Rightarrow> int \<Rightarrow> int \<Rightarrow> string \<Rightarrow> 'cb SceneBuilder \<Rightarrow> (error option \<times> 'cb SceneBuilder) option" where
  "addTile lname x y tileCode s =
     (case validateTileFormat tileCode
             (''addTile: '' @ tileCode @ '' @ ('' @ string_of_int x @ '','' @ string_of_int y @ '')'') of
        Inl e \<Rightarrow> Some (Some e, s)
      | Inr _ \<Rightarrow>
          (case find (\<lambda>l. name l = lname) (runtimeLayers s) of
             None \<Rightarrow>
               Some (Some (newTWError LAYER_NOT_FOUND
                       (''Layer '' @ dquote @ lname @ dquote @ '' does not exist.'')
                       (Some (''layerName: '' @ lname)) (Some ''SceneBuilder'')), s)
           | Some layer \<Rightarrow>
               (let w = width (main (sceneConfig s)); h = height (main (sceneConfig s))
                in if x < 0 \<or> x \<ge> w \<or> y < 0 \<or> y \<ge> h then
                     Some (Some (newTWError INVALID_TILE_POSITION
                             (''Invalid position ('' @ string_of_int x @ '', '' @ string_of_int y
                                @ '') for layer '' @ dquote @ lname @ dquote @ ''.'')
                             (Some (positionContext x y w h)) (Some ''SceneBuilder'')), s)
                   else
                     (case setCell (tiles layer) (nat x) (nat y) tileCode of
                        None \<Rightarrow> None
                      | Some (Inl e) \<Rightarrow> Some (Some e, s)
                      | Some (Inr g) \<Rightarrow>
                          Some (updateTileInDOM lname x y
                            (s\<lparr>runtimeLayers :=
                                 updateFirst (\<lambda>l. name l = lname) (\<lambda>l. l\<lparr>tiles := g\<rparr>)
                                   (runtimeLayers s)\<rparr>))))))"

subsection \<open>Metadata and props\<close>

text \<open>\<open>table[key] ?? {}\<close>\<close>

definition propsOf :: "(string \<rightharpoonup> (string \<rightharpoonup> string)) \<Rightarrow> string \<Rightarrow> (string \<rightharpoonup> string)" where
  "propsOf table key = (case table key of None \<Rightarrow> Map.empty | Some m \<Rightarrow> m)"

text \<open>\<open>tileCode.match(/^[A-Z]+/)?.[0] ?? null\<close>\<close>

definition matchUpperPrefix :: "string \<Rightarrow> string option" where
  "matchUpperPrefix tileCode =
     (let m = takeWhile is_upper tileCode in if m = [] then None else Some m)"

text \<open>
  The body of the loop of \<open>getTileMetadataStack\<close> for a cell that is not skipped. Reading
  \<open>tileset!.id\<close> when \<open>find\<close> gave undefined is a TypeError.
\<close>

definition tileMetadata ::
  "SceneConfig \<Rightarrow> TWMLayer \<Rightarrow> string \<Rightarrow> error + TileMetadata" where
  "tileMetadata c layer tileCode =
     (let tsShort = matchUpperPrefix tileCode;
          ts = (case tsShort of
                  None \<Rightarrow> None
                | Some sh \<Rightarrow> find (\<lambda>t. short t = sh) (tilesets c));
          tileProps = propsOf (props_tiles (props c)) tileCode;
          layerProps = propsOf (props_layers (props c)) (name layer)
      in case (tsShort, ts) of
           (Some sh, Some t) \<Rightarrow>
             Inr \<lparr>tile = tileCode, layerName = name layer, tilesetShort = sh,
                  tilesetId = ts_id t,
                  mprops = propsOf (props_tilesets (props c)) (ts_id t) ++ layerProps ++ tileProps\<rparr>
         | _ \<Rightarrow> Inl TypeError)"

fun stackLoop ::
  "SceneConfig \<Rightarrow> int \<Rightarrow> int \<Rightarrow> TWMLayer list \<Rightarrow> error + TileMetadata list" where
  "stackLoop c x y [] = Inr []"
| "stackLoop c x y (layer # rest) =
     (let tileCode = cellAt (tiles layer) x y
      in if tileCode = [] \<or> tileCode = ''0'' then stackLoop c x y rest
         else (case tileMetadata c layer tileCode of
                 Inl e \<Rightarrow> Inl e
               | Inr md \<Rightarrow> (case stackLoop c x y rest of
                              Inl e \<Rightarrow> Inl e
                            | Inr mds \<Rightarrow> Inr (md # mds))))"

definition getTileMetadataStack ::
  "int \<Rightarrow> int \<Rightarrow> 'cb SceneBuilder \<Rightarrow> error + TileMetadata list" where
  "getTileMetadataStack x y s =
     (let w = width (main (sceneConfig s)); h = height (main (sceneConfig s))
      in if x < 0 \<or> x \<ge> w \<or> y < 0 \<or> y \<ge> h then Inr []
         else stackLoop (sceneConfig s) x y (layers (sceneConfig s) @ runtimeLayers s))"



subsection \<open>Hover tracking\<close>

text \<open>
  The handlers that \<open>buildScene\<close> puts on the wrapper. A handler run is given by what it
  reads from the event: \<open>parseInt\<close> of the target's \<open>data-x\<close> and \<open>data-y\<close> (\<open>None\<close> for
  NaN, when the target carries no coordinate). Its effect is the list of subscriber calls
  it makes, in order, and the new last-hovered tile. Every call of one run gets the same
  original mouse event, which is left out.
\<close>

datatype hover_kind = TileHover | TileHoverEnd

type_synonym 'cb hover_call = "'cb \<times> hover_kind \<times> int \<times> int"

definition hoverEndCalls :: "'cb SceneBuilder \<Rightarrow> 'cb hover_call list" where
  "hoverEndCalls s =
     (if fst (lastHoveredTile s) \<noteq> - 1 \<and> snd (lastHoveredTile s) \<noteq> - 1
      then map (\<lambda>cb. (cb, TileHoverEnd, fst (lastHoveredTile s), snd (lastHoveredTile s)))
             (onTileHoverEnd (eventSubscriber s))
      else [])"

definition onmousemove ::
  "int option \<Rightarrow> int option \<Rightarrow> 'cb SceneBuilder \<Rightarrow> 'cb hover_call list \<times> 'cb SceneBuilder" where
  "onmousemove tx ty s =
     (case (tx, ty) of
        (Some x, Some y) \<Rightarrow>
          if fst (lastHoveredTile s) = x \<and> snd (lastHoveredTile s) = y then ([], s)
          else (hoverEndCalls s
                  @ map (\<lambda>cb. (cb, TileHover, x, y)) (onTileHover (eventSubscriber s)),
                s\<lparr>lastHoveredTile := (x, y)\<rparr>)
      | _ \<Rightarrow> ([], s))"

definition onmouseleave :: "'cb SceneBuilder \<Rightarrow> 'cb hover_call list \<times> 'cb SceneBuilder" where
  "onmouseleave s = (hoverEndCalls s, s\<lparr>lastHoveredTile := (- 1, - 1)\<rparr>)"

datatype pointer_event = MouseMove "int option" "int option" | MouseLeave

fun hoverStep :: "pointer_event \<Rightarrow> 'cb SceneBuilder \<Rightarrow> 'cb hover_call list \<times> 'cb SceneBuilder" where
  "hoverStep (MouseMove tx ty) s = onmousemove tx ty s"
| "hoverStep MouseLeave s = onmouseleave s"

text \<open>A sequence of pointer events: the calls of all handler runs, in order.\<close>

fun hoverRun :: "pointer_event list \<Rightarrow> 'cb SceneBuilder \<Rightarrow> 'cb hover_call list \<times> 'cb SceneBuilder" where
  "hoverRun [] s = ([], s)"
| "hoverRun (e # es) s =
     (let (calls, s1) = hoverStep e s;
          (calls', s2) = hoverRun es s1
      in (calls @ calls', s2))"

subsection \<open>Hover tracking as the spec words it\<close>

type_synonym hover_event = "hover_kind \<times> int \<times> int"

text \<open>An event reaches every subscriber of its list, in subscription order.\<close>

definition dispatch :: "'cb SceneEventSubscriber \<Rightarrow> hover_event \<Rightarrow> 'cb hover_call list" where
  "dispatch subs ev =
     (case ev of
        (TileHover, x, y) \<Rightarrow> map (\<lambda>cb. (cb, TileHover, x, y)) (onTileHover subs)
      | (TileHoverEnd, x, y) \<Rightarrow> map (\<lambda>cb. (cb, TileHoverEnd, x, y)) (onTileHoverEnd subs))"

text \<open>
  The hover tracking in the words of the spec, over the hovered cell (if any): a move
  within the hovered cell emits nothing; a move to another cell emits a hover-end for the
  hovered cell, if there is one, and then a hover-start for the new cell; leaving emits a
  hover-end for the hovered cell, if there is one, and no cell is hovered afterwards. A
  move over a target without coordinates, of which the spec does not speak, changes
  nothing.
\<close>

fun specHoverStep ::
  "pointer_event \<Rightarrow> (int \<times> int) option \<Rightarrow> hover_event list \<times> (int \<times> int) option" where
  "specHoverStep MouseLeave None = ([], None)"
| "specHoverStep MouseLeave (Some (px, py)) = ([(TileHoverEnd, px, py)], None)"
| "specHoverStep (MouseMove (Some x) (Some y)) None = ([(TileHover, x, y)], Some (x, y))"
| "specHoverStep (MouseMove (Some x) (Some y)) (Some (px, py)) =
     (if (px, py) = (x, y) then ([], Some (px, py))
      else ([(TileHoverEnd, px, py), (TileHover, x, y)], Some (x, y)))"
| "specHoverStep (MouseMove _ _) cur = ([], cur)"

fun specHoverRun ::
  "pointer_event list \<Rightarrow> (int \<times> int) option \<Rightarrow> hover_event list \<times> (int \<times> int) option" where
  "specHoverRun [] cur = ([], cur)"
| "specHoverRun (e # es) cur =
     (let (evs, cur1) = specHoverStep e cur;
          (evs', cur2) = specHoverRun es cur1
      in (evs @ evs', cur2))"

text \<open>Hover-start and hover-end alternate, and each hover-end is for the cell of the
  hover-start before it; \<open>cur\<close> is the cell hovered before the first event.\<close>

fun alternating :: "(int \<times> int) option \<Rightarrow> hover_event list \<Rightarrow> bool" where
  "alternating cur [] = True"
| "alternating cur ((TileHover, x, y) # evs) = (cur = None \<and> alternating (Some (x, y)) evs)"
| "alternating cur ((TileHoverEnd, x, y) # evs) = (cur = Some (x, y) \<and> alternating None evs)"

text \<open>How the builder stores the hovered cell: \<open>{x: -1, y: -1}\<close> stands for none.\<close>

definition lastOf :: "(int \<times> int) option \<Rightarrow> int \<times> int" where
  "lastOf cur = (case cur of None \<Rightarrow> (- 1, - 1) | Some c \<Rightarrow> c)"

text \<open>Tile elements carry the indices of their cell, which are not negative.\<close>

definition validCell :: "(int \<times> int) option \<Rightarrow> bool" where
  "validCell cur \<longleftrightarrow> (case cur of None \<Rightarrow> True | Some (x, y) \<Rightarrow> 0 \<le> x \<and> 0 \<le> y)"

fun validPointer :: "pointer_event \<Rightarrow> bool" where
  "validPointer (MouseMove (Some x) (Some y)) = (0 \<le> x \<and> 0 \<le> y)"
| "validPointer _ = True"

section \<open>Example inputs\<close>

text \<open>Config texts are written as lists of lines, joined by line feeds.\<close>

definition newline :: char where
  "newline = CHR 0x0A"

definition joinLines :: "string list \<Rightarrow> string" where
  "joinLines ls = foldr (\<lambda>l r. if r = [] then l else l @ newline # r) ls []"

definition noProps :: TWMPropsMap where
  "noProps = \<lparr>props_tilesets = Map.empty, props_layers = Map.empty, props_tiles = Map.empty\<rparr>"

text \<open>A builder with no subscriber and no hovered tile, as the constructor leaves it.\<close>

definition sceneWith ::
  "SceneConfig \<Rightarrow> TWMLayer list \<Rightarrow> (string \<times> nat) list \<Rightarrow> unit SceneBuilder" where
  "sceneWith c rl dl =
     \<lparr>sceneConfig = c, hiddenLayers = [], runtimeLayers = rl,
      eventSubscriber = \<lparr>onTileClicked = [], onTileHover = [], onTileHoverEnd = []\<rparr>,
      lastHoveredTile = (- 1, - 1), domLayers = dl\<rparr>"

text \<open>One static layer holding the tile \<open>g0\<close> of a tileset whose short is the lowercase
  \<open>g\<close>.\<close>

definition lowerConfig :: "SceneConfig" where
  "lowerConfig =
     \<lparr>main = \<lparr>tileSize = 16, width = 1, height = 1\<rparr>,
      layers = [\<lparr>name = ''bg'', tiles = [[''g0'']]\<rparr>],
      tilesets = [\<lparr>ts_id = ''grass'', tileset = ''g.png'', short = ''g''\<rparr>],
      props = noProps\<rparr>"

text \<open>Two tilesets with the shorts \<open>G\<close> and \<open>Gr\<close>, and the tile \<open>Gr0\<close>.\<close>

definition mixedConfig :: "SceneConfig" where
  "mixedConfig =
     \<lparr>main = \<lparr>tileSize = 16, width = 1, height = 1\<rparr>,
      layers = [\<lparr>name = ''bg'', tiles = [[''Gr0'']]\<rparr>],
      tilesets = [\<lparr>ts_id = ''grass'', tileset = ''g.png'', short = ''G''\<rparr>,
                  \<lparr>ts_id = ''gravel'', tileset = ''gr.png'', short = ''Gr''\<rparr>],
      props = noProps\<rparr>"

text \<open>A scene of two by one cells with one tileset and no static layer.\<close>

definition emptyConfig :: "SceneConfig" where
  "emptyConfig =
     \<lparr>main = \<lparr>tileSize = 16, width = 2, height = 1\<rparr>,
      layers = [],
      tilesets = [\<lparr>ts_id = ''grass'', tileset = ''g.png'', short = ''G''\<rparr>],
      props = noProps\<rparr>"

text \<open>A props line with two \<open>=\<close>, and a main section that only gives a width of 0.\<close>

definition propsLineText :: string where
  "propsLineText = joinLines [''[main]'', ''width=1'', ''[props]'', ''layer.bg.note=a=b'']"

definition widthZeroText :: string where
  "widthZeroText = joinLines [''[main]'', ''width=0'']"

text \<open>The three main settings of a parsed config, where it has a main record.\<close>

definition mainSettings ::
  "ParsedConfig \<Rightarrow> (jsnumber option \<times> jsnumber option \<times> jsnumber option) option" where
  "mainSettings c = map_option (\<lambda>m. (m ''tileSize'', m ''width'', m ''height'')) (main c)"

text \<open>One layer prop of a parsed config, and the short and id of a metadata record.\<close>

definition layerProp :: "string \<Rightarrow> string \<Rightarrow> ParsedConfig \<Rightarrow> string option" where
  "layerProp lname key c = propsOf (props_layers (props c)) lname key"

definition shortAndId :: "TileMetadata \<Rightarrow> string \<times> string" where
  "shortAndId md = (tilesetShort md, tilesetId md)"

text \<open>The config that \<open>widthZeroText\<close> parses to.\<close>

definition widthZeroConfig :: "ParsedConfig" where
  "widthZeroConfig =
     \<lparr>main = Some [''width'' \<mapsto> Decimal 0], layers = [], tilesets = [], props = noProps\<rparr>"

text \<open>A main section without any setting.\<close>

definition mainHeaderOnlyText :: string where
  "mainHeaderOnlyText = joinLines [''# no settings'', ''[main]'', []]"

text \<open>A tileset section that ends before its short is given, and the parser state at the
  end of these lines.\<close>

definition tilesetPendingText :: string where
  "tilesetPendingText = joinLines [''[main]'', ''width=1'', ''[tileset:t]'', ''tileset=a.png'']"

definition tilesetPendingState :: ParserState where
  "tilesetPendingState =
     \<lparr>currentSection = ''tileset'',
      currentLayer = \<lparr>cl_name = None, cl_tiles = None\<rparr>,
      tempTileset = \<lparr>t_id = Some ''t'', t_tileset = Some ''a.png'', t_short = None\<rparr>,
      config = \<lparr>main = Some [''width'' \<mapsto> Decimal 1], layers = [], tilesets = [],
                props = noProps\<rparr>,
      globals = freshPage\<rparr>"

text \<open>The same tileset section with its short, and the config it parses to.\<close>

definition tilesetFullText :: string where
  "tilesetFullText =
     joinLines [''[main]'', ''width=1'', ''[tileset:t]'', ''tileset=a.png'', ''short=G'']"

definition tilesetFullConfig :: "ParsedConfig" where
  "tilesetFullConfig =
     \<lparr>main = Some [''width'' \<mapsto> Decimal 1], layers = [],
      tilesets = [\<lparr>t_id = Some ''t'', t_tileset = Some ''a.png'', t_short = Some ''G''\<rparr>],
      props = noProps\<rparr>"

text \<open>The layer of the spec's example, and the parser state after a layer header.\<close>

definition layerText :: string where
  "layerText =
     joinLines [''[main]'', ''width=2'', ''height=2'', ''tileSize=16'', ''[layer:bg]'',
       ''tiles=G0,0;0,S1'']"

definition layerOpenState :: ParserState where
  "layerOpenState =
     initialState\<lparr>currentSection := ''layer'',
                   currentLayer := \<lparr>cl_name = Some ''bg'', cl_tiles = Some []\<rparr>\<rparr>"

text \<open>A third layer section that takes the name of the first, with its tiles line, and
  the parser state after the three headers.\<close>

definition layerDuplicateText :: string where
  "layerDuplicateText = joinLines [''[layer:a]'', ''[layer:b]'', ''[layer:a]'', ''tiles=G0,g-1'']"

definition layerDuplicateState :: ParserState where
  "layerDuplicateState =
     initialState\<lparr>currentSection := ''layer'',
                   currentLayer := \<lparr>cl_name = Some ''a'', cl_tiles = Some []\<rparr>,
                   config := (config initialState)\<lparr>layers :=
                     [\<lparr>cl_name = Some ''a'', cl_tiles = Some []\<rparr>,
                      \<lparr>cl_name = Some ''b'', cl_tiles = Some []\<rparr>]\<rparr>\<rparr>"

text \<open>The parser state after the lines \<open>[props]\<close>, \<open>layer.__proto__.name=a\<close> and
  \<open>[layer:a]\<close>: the header has finalized the first, empty layer object, which reads
  its name from \<open>Object.prototype\<close>.\<close>

definition layerInheritedNameText :: string where
  "layerInheritedNameText = joinLines [''[props]'', ''layer.__proto__.name=a'', ''[layer:a]'']"

definition layerInheritedNameState :: ParserState where
  "layerInheritedNameState =
     initialState\<lparr>currentSection := ''layer'',
                   currentLayer := \<lparr>cl_name = Some ''a'', cl_tiles = Some []\<rparr>,
                   config := (config initialState)\<lparr>layers :=
                     [\<lparr>cl_name = None, cl_tiles = None\<rparr>]\<rparr>,
                   globals := freshPage\<lparr>objectPrototype := [''name'' \<mapsto> ''a'']\<rparr>\<rparr>"

text \<open>A text without main section whose props line puts \<open>main\<close> on
  \<open>Object.prototype\<close>, and the same text followed by a main section.\<close>

definition inheritedMainText :: string where
  "inheritedMainText = joinLines [''[props]'', ''layer.__proto__.main=5'']"

definition inheritedMainWidthText :: string where
  "inheritedMainWidthText =
     joinLines [''[props]'', ''layer.__proto__.main=5'', ''[main]'', ''width=1'']"

text \<open>Props lines with the identifier \<open>__proto__\<close> and the keys \<open>tileset\<close> and \<open>short\<close>,
  then the header of a tileset section; the same lines followed by a line of that section
  with another key. Of a parser state, the finalized tilesets and the in-progress
  record.\<close>

definition inheritedTilesetText :: string where
  "inheritedTilesetText =
     joinLines [''[props]'', ''layer.__proto__.tileset=a.png'', ''layer.__proto__.short=G'',
       ''[tileset:t]'']"

definition inheritedTilesetNoteText :: string where
  "inheritedTilesetNoteText =
     joinLines [''[props]'', ''layer.__proto__.tileset=a.png'', ''layer.__proto__.short=G'',
       ''[tileset:t]'', ''note=x'']"

definition tilesetRecords :: "ParserState \<Rightarrow> PartialTileset list \<times> PartialTileset" where
  "tilesetRecords st = (tilesets (config st), tempTileset st)"

text \<open>The instance of the spec: tileset props \<open>{a:"1"}\<close>, layer props
  \<open>{a:"2", b:"3"}\<close> and tile props \<open>{b:"4"}\<close> for the only tile of the cell, and the
  metadata record of that tile.\<close>

definition propsConfig :: "SceneConfig" where
  "propsConfig =
     \<lparr>main = \<lparr>tileSize = 16, width = 1, height = 1\<rparr>,
      layers = [\<lparr>name = ''ground'', tiles = [[''G0'']]\<rparr>],
      tilesets = [\<lparr>ts_id = ''grass'', tileset = ''g.png'', short = ''G''\<rparr>],
      props = \<lparr>props_tilesets = [''grass'' \<mapsto> [''a'' \<mapsto> ''1'']],
               props_layers = [''ground'' \<mapsto> [''a'' \<mapsto> ''2'', ''b'' \<mapsto> ''3'']],
               props_tiles = [''G0'' \<mapsto> [''b'' \<mapsto> ''4'']]\<rparr>\<rparr>"


text \<open>A builder with one hover subscriber (1) and one hover-end subscriber (2).\<close>

definition hoverScene :: "nat SceneBuilder" where
  "hoverScene =
     \<lparr>sceneConfig = emptyConfig, hiddenLayers = [], runtimeLayers = [],
      eventSubscriber = \<lparr>onTileClicked = [], onTileHover = [1], onTileHoverEnd = [2]\<rparr>,
      lastHoveredTile = (- 1, - 1), domLayers = []\<rparr>"

section \<open>Predicates used in the statements\<close>

text \<open>The main record of a config under construction, where there is one, holds at least
  one setting and no key other than the three settings.\<close>

definition mainStored :: "ParsedConfig \<Rightarrow> bool" where
  "mainStored c \<longleftrightarrow>
     (case main c of
        None \<Rightarrow> True
      | Some m \<Rightarrow> dom m \<noteq> {} \<and> dom m \<subseteq> {''tileSize'', ''width'', ''height''})"

text \<open>A tileset record has all of id, tileset and short as own properties (each
  truthy).\<close>

definition tilesetComplete :: "PartialTileset \<Rightarrow> bool" where
  "tilesetComplete t \<longleftrightarrow> truthy (t_id t) \<and> truthy (t_tileset t) \<and> truthy (t_short t)"

definition completeTilesets :: "ParsedConfig \<Rightarrow> bool" where
  "completeTilesets c \<longleftrightarrow> (\<forall>ts \<in> set (tilesets c). tilesetComplete ts)"

text \<open>\<open>Object.prototype\<close> holds none of the keys of a tileset record.\<close>

definition tilesetKeysFree :: "Globals \<Rightarrow> bool" where
  "tilesetKeysFree g \<longleftrightarrow>
     objectPrototype g ''id'' = None \<and> objectPrototype g ''tileset'' = None
     \<and> objectPrototype g ''short'' = None"

text \<open>Between two lines, while \<open>Object.prototype\<close> holds none of these keys, the
  in-progress tileset record is never complete, and every finalized tileset is.\<close>

definition tilesetInv :: "ParserState \<Rightarrow> bool" where
  "tilesetInv st \<longleftrightarrow>
     (tilesetKeysFree (globals st) \<longrightarrow>
        \<not> tilesetComplete (tempTileset st) \<and> completeTilesets (config st))"

text \<open>Every grid of a runtime layer has \<open>height\<close> rows of \<open>width\<close> cells, as
  \<open>createEmpty2DArray\<close> makes it.\<close>

definition runtimeGridsOK :: "'cb SceneBuilder \<Rightarrow> bool" where
  "runtimeGridsOK s \<longleftrightarrow>
     (\<forall>l \<in> set (runtimeLayers s).
        length (tiles l) = nat (height (main (sceneConfig s)))
        \<and> (\<forall>row \<in> set (tiles l). length row = nat (width (main (sceneConfig s)))))"

section \<open>Properties of the tile validator\<close>

text \<open>The error thrown and the result of the validator, without the console.\<close>

lemma throw_unfold: "throw c msg ctx cmpn = Inl (newTWError c msg ctx cmpn)"
  by (simp add: throw_def TWErrorHandler_throw_def)

lemma validateTileFormat_unfold:
  "validateTileFormat tc ctx =
     (let trimmed = trim tc
      in if trimmed = ''0'' then Inr ()
         else if \<not> tile_regex_test trimmed
           then throw INVALID_TILE_SYNTAX (invalid_tile_message trimmed) (Some ctx)
                  (Some ''TileValidator'')
         else Inr ())"
  by (simp add: validateTileFormat_def validateTileFormat_console_def Let_def throw_unfold
      TWErrorHandler_throw_def)

lemma validateTileFormat_console_result:
  "snd (validateTileFormat_console tc ctx con) = validateTileFormat tc ctx"
  by (simp add: validateTileFormat_def validateTileFormat_console_def Let_def
      TWErrorHandler_throw_def)

lemma tile_regex_test_iff:
  "tile_regex_test s \<longleftrightarrow>
     (\<exists>ls ds. s = ls @ ds \<and> ls \<noteq> [] \<and> ds \<noteq> []
        \<and> (\<forall>c \<in> set ls. is_alpha c) \<and> (\<forall>c \<in> set ds. is_digit c))"
proof
  assume "tile_regex_test s"
  then have "s = takeWhile is_alpha s @ dropWhile is_alpha s"
    and "takeWhile is_alpha s \<noteq> []" and "dropWhile is_alpha s \<noteq> []"
    and "\<forall>c \<in> set (takeWhile is_alpha s). is_alpha c"
    and "\<forall>c \<in> set (dropWhile is_alpha s). is_digit c"
    by (auto simp: tile_regex_test_def Let_def list_all_iff dest: set_takeWhileD)
  then show "\<exists>ls ds. s = ls @ ds \<and> ls \<noteq> [] \<and> ds \<noteq> []
        \<and> (\<forall>c \<in> set ls. is_alpha c) \<and> (\<forall>c \<in> set ds. is_digit c)"
    by blast
next
  assume "\<exists>ls ds. s = ls @ ds \<and> ls \<noteq> [] \<and> ds \<noteq> []
        \<and> (\<forall>c \<in> set ls. is_alpha c) \<and> (\<forall>c \<in> set ds. is_digit c)"
  then obtain ls ds where s: "s = ls @ ds" and ne: "ls \<noteq> []" "ds \<noteq> []"
    and al: "\<forall>c \<in> set ls. is_alpha c" and dg: "\<forall>c \<in> set ds. is_digit c"
    by blast
  have nd: "\<not> is_alpha (hd ds)"
    using ne dg by (cases ds) (auto simp: is_alpha_def is_digit_def is_upper_def is_lower_def)
  have tw: "takeWhile is_alpha s = ls"
    using s ne al nd by (cases ds) simp_all
  have dw: "dropWhile is_alpha s = ds"
    using s ne al nd by (cases ds) simp_all
  show "tile_regex_test s"
    using tw dw ne dg by (simp add: tile_regex_test_def list_all_iff)
qed

lemma validateTileFormat_Inl:
  "validateTileFormat c ctx = Inl e \<Longrightarrow>
     e = newTWError INVALID_TILE_SYNTAX (invalid_tile_message (trim c)) (Some ctx)
           (Some ''TileValidator'')"
  by (auto simp: validateTileFormat_unfold Let_def throw_unfold split: if_splits)

lemma is_alpha_letters:
  "is_alpha x \<longleftrightarrow> x \<in> set ''ABCDEFGHIJKLMNOPQRSTUVWXYZabcdefghijklmnopqrstuvwxyz''"
  by (auto simp: is_alpha_def is_upper_def is_lower_def)

lemma is_digit_digits: "is_digit x \<longleftrightarrow> x \<in> set ''0123456789''"
  by (simp add: is_digit_def)

text \<open>
  C8, counterexample to the claim as stated. The validator has an effect beside its
  result: for the input \<open>G 1\<close> with the context \<open>row\<close>, on an empty console, it writes
  the error to the console (a group with the code, the message, the component and the
  context) and then throws it.
\<close>

theorem validateTileFormat_logs_counterexample:
  "validateTileFormat_console ''G 1'' ''row'' [] =
     ([ConsoleGroup,
       ConsoleError ''%cCode: %s'' ''font-weight: bold;'' ''INVALID_TILE_SYNTAX'',
       ConsoleError ''%cMessage: %s'' ''font-weight: bold;''
         (''[INVALID_TILE_SYNTAX] Invalid tile format: '' @ [CHR 0x22] @ ''G 1'' @ [CHR 0x22]
            @ ''. Expected like G0 or S1 or 0 for empty tiles.''),
       ConsoleError ''%cComponent: %s'' ''font-weight: bold;'' ''TileValidator'',
       ConsoleError ''%cContext: %s'' ''font-weight: bold;'' ''row'',
       ConsoleGroupEnd],
      Inl (TWError INVALID_TILE_SYNTAX
             (''[INVALID_TILE_SYNTAX] Invalid tile format: '' @ [CHR 0x22] @ ''G 1'' @ [CHR 0x22]
                @ ''. Expected like G0 or S1 or 0 for empty tiles.'')
             (Some ''row'') (Some ''TileValidator'')))"
  by code_simp

text \<open>
  C8, as amended. The validator succeeds exactly when the trimmed input is \<open>"0"\<close> or is
  one or more ASCII letters followed by one or more decimal digits, and then it leaves the
  console as it was. In every other case it throws INVALID_TILE_SYNTAX, with the trimmed
  input quoted in the message and with the caller's context, after it has written that
  error to the console: a group with the code, the message, the component and, unless it
  is empty, the context.
\<close>

theorem validateTileFormat_spec:
  "(snd (validateTileFormat_console c ctx con) = Inr () \<longleftrightarrow>
      trim c = ''0'' \<or>
      (\<exists>ls ds. trim c = ls @ ds \<and> ls \<noteq> [] \<and> ds \<noteq> []
         \<and> (\<forall>x \<in> set ls. x \<in> set ''ABCDEFGHIJKLMNOPQRSTUVWXYZabcdefghijklmnopqrstuvwxyz'')
         \<and> (\<forall>x \<in> set ds. x \<in> set ''0123456789'')))
   \<and> (snd (validateTileFormat_console c ctx con) = Inr () \<longrightarrow>
        fst (validateTileFormat_console c ctx con) = con)
   \<and> (snd (validateTileFormat_console c ctx con) \<noteq> Inr () \<longrightarrow>
        snd (validateTileFormat_console c ctx con) =
          Inl (TWError INVALID_TILE_SYNTAX
                 (''[INVALID_TILE_SYNTAX] Invalid tile format: '' @ [CHR 0x22] @ trim c @ [CHR 0x22]
                    @ ''. Expected like G0 or S1 or 0 for empty tiles.'')
                 (Some ctx) (Some ''TileValidator''))
        \<and> fst (validateTileFormat_console c ctx con) =
            con
            @ [ConsoleGroup,
               ConsoleError ''%cCode: %s'' ''font-weight: bold;'' ''INVALID_TILE_SYNTAX'',
               ConsoleError ''%cMessage: %s'' ''font-weight: bold;''
                 (''[INVALID_TILE_SYNTAX] Invalid tile format: '' @ [CHR 0x22] @ trim c
                    @ [CHR 0x22] @ ''. Expected like G0 or S1 or 0 for empty tiles.''),
               ConsoleError ''%cComponent: %s'' ''font-weight: bold;'' ''TileValidator'']
            @ (if ctx = [] then [] else [ConsoleError ''%cContext: %s'' ''font-weight: bold;'' ctx])
            @ [ConsoleGroupEnd])"
  unfolding is_alpha_letters [symmetric] is_digit_digits [symmetric]
    tile_regex_test_iff [symmetric]
  by (simp add: validateTileFormat_console_def Let_def TWErrorHandler_throw_def
      TWErrorHandler_log_def newTWError_def invalid_tile_message_def dquote_def)

theorem validateTileFormat_spec_witness:
  "validateTileFormat_console '' Gr12 '' ''row'' [ConsoleGroupEnd] = ([ConsoleGroupEnd], Inr ())
   \<and> validateTileFormat_console ''0'' ''row'' [] = ([], Inr ())
   \<and> validateTileFormat_console ''G 1'' [] [] =
       ([ConsoleGroup,
         ConsoleError ''%cCode: %s'' ''font-weight: bold;'' ''INVALID_TILE_SYNTAX'',
         ConsoleError ''%cMessage: %s'' ''font-weight: bold;''
           (''[INVALID_TILE_SYNTAX] Invalid tile format: '' @ [CHR 0x22] @ ''G 1'' @ [CHR 0x22]
              @ ''. Expected like G0 or S1 or 0 for empty tiles.''),
         ConsoleError ''%cComponent: %s'' ''font-weight: bold;'' ''TileValidator'',
         ConsoleGroupEnd],
        Inl (TWError INVALID_TILE_SYNTAX
               (''[INVALID_TILE_SYNTAX] Invalid tile format: '' @ [CHR 0x22] @ ''G 1'' @ [CHR 0x22]
                  @ ''. Expected like G0 or S1 or 0 for empty tiles.'')
               (Some []) (Some ''TileValidator'')))"
  using validateTileFormat_spec [of "'' Gr12 ''" "''row''" "[ConsoleGroupEnd]"]
    validateTileFormat_spec [of "''0''" "''row''" "[]"]
    validateTileFormat_spec [of "''G 1''" "[]" "[]"]
  by (simp add: validateTileFormat_console_def Let_def TWErrorHandler_throw_def
      TWErrorHandler_log_def newTWError_def invalid_tile_message_def dquote_def trim_def
      is_space_def tile_regex_test_def is_alpha_def is_upper_def is_lower_def is_digit_def)

section \<open>Properties of the parser\<close>

text \<open>The definitions that evaluate the parser on a concrete text.\<close>

lemmas parser_eval_defs =
  parseConfig_def finishParse_def processLine_def handleKeyValue_def handleMain_def
  handleTileset_def handleSectionHeader_def pushCurrentLayer_def initialState_def
  freshPage_def inherited_def truthy_def
  noProps_def joinLines_def newline_def trim_def is_space_def startsWith_def slice_1_m1_def
  second_def Number_def Let_def is_digit_def decimal_value_def digit_value_def

subsection \<open>Key and value of a line\<close>

text \<open>
  A line that is not blank, not a comment and not a header: without \<open>=\<close> it throws
  MISSING_KEY_VALUE; with one \<open>=\<close> the key is the trimmed text before it and the value the
  trimmed text after it; with more, the value is the trimmed text between the first and
  the second \<open>=\<close>.
\<close>

lemma split_on_no_separator: "c \<notin> set s \<Longrightarrow> split_on c s = [s]"
  by (induction s) auto

lemma split_on_first: "c \<notin> set a \<Longrightarrow> split_on c (a @ c # b) = a # split_on c b"
  by (induction a) (auto split: list.splits)

lemma processLine_no_equals:
  assumes "trim rawLine \<noteq> []" and "\<not> startsWith (trim rawLine) ''#''"
    and "\<not> startsWith (trim rawLine) ''[''" and "CHR ''='' \<notin> set (trim rawLine)"
  shows "processLine rawLine st =
           throw MISSING_KEY_VALUE ''Expected key=value format'' (Some (trim rawLine)) (Some ''Parser'')"
  using assms by (simp add: processLine_def Let_def split_on_no_separator)

lemma processLine_two_equals:
  assumes "trim rawLine = k @ CHR ''='' # v @ CHR ''='' # rest"
    and "CHR ''='' \<notin> set k" and "CHR ''='' \<notin> set v"
    and "\<not> startsWith (trim rawLine) ''#''" and "\<not> startsWith (trim rawLine) ''[''"
  shows "processLine rawLine st = handleKeyValue (trim k) (trim v) st"
proof -
  have "split_on CHR ''='' (trim rawLine) = k # v # split_on CHR ''='' rest"
    using assms(1-3) by (simp add: split_on_first)
  then show ?thesis
    using assms by (simp add: processLine_def Let_def)
qed

lemma processLine_one_equals:
  assumes "trim rawLine = k @ CHR ''='' # v"
    and "CHR ''='' \<notin> set k" and "CHR ''='' \<notin> set v"
    and "\<not> startsWith (trim rawLine) ''#''" and "\<not> startsWith (trim rawLine) ''[''"
  shows "processLine rawLine st = handleKeyValue (trim k) (trim v) st"
proof -
  have "split_on CHR ''='' (trim rawLine) = [k, v]"
    using assms(1-3) by (simp add: split_on_first split_on_no_separator)
  then show ?thesis
    using assms by (simp add: processLine_def Let_def)
qed

text \<open>
  C3 (the code departs from the claim). The line is split on every \<open>=\<close> and only the
  first two pieces are used: for the props line \<open>layer.bg.note=a=b\<close> the stored value is
  \<open>a\<close>, and the text from the second \<open>=\<close> on is dropped.
\<close>

theorem parseConfig_value_cut_at_second_equals:
  "map_sum id (layerProp ''bg'' ''note'' \<circ> fst) (parseConfig propsLineText) = Inr (Some ''a'')"
  by code_simp

subsection \<open>What the props lines put on \<open>Object.prototype\<close>\<close>

text \<open>Only a props line changes the globals, and it takes nothing off
  \<open>Object.prototype\<close>.\<close>

lemma setProp_objectPrototype:
  "setProp g table identifier propKey val = Inr (table', g') \<Longrightarrow>
     objectPrototype g' k = None \<Longrightarrow> objectPrototype g k = None"
  by (auto simp: setProp_def split: table_value.splits if_splits)

lemma handleProps_objectPrototype:
  "handleProps key val st = Inr st' \<Longrightarrow> objectPrototype (globals st') k = None
     \<Longrightarrow> objectPrototype (globals st) k = None"
  by (auto simp: handleProps_def Let_def throw_unfold
      split: if_splits list.splits sum.splits prod.splits dest: setProp_objectPrototype)

lemma pushCurrentLayer_globals [simp]: "globals (pushCurrentLayer st) = globals st"
  by (simp add: pushCurrentLayer_def)

lemma handleSectionHeader_globals:
  "handleSectionHeader line st = Inr st' \<Longrightarrow> globals st' = globals st"
  by (auto simp: handleSectionHeader_def Let_def throw_unfold split: if_splits)

lemma handleTileset_globals:
  "handleTileset key val st = Inr st' \<Longrightarrow> globals st' = globals st"
  by (auto simp: handleTileset_def Let_def throw_unfold split: if_splits)

lemma handleLayer_globals:
  "handleLayer key val st = Inr st' \<Longrightarrow> globals st' = globals st"
  by (auto simp: handleLayer_def Let_def throw_unfold split: if_splits sum.splits)

lemma handleKeyValue_objectPrototype:
  "handleKeyValue key val st = Inr st' \<Longrightarrow> objectPrototype (globals st') k = None
     \<Longrightarrow> objectPrototype (globals st) k = None"
  by (auto simp: handleKeyValue_def throw_unfold split: if_splits sum.splits
      dest: handleTileset_globals handleLayer_globals handleProps_objectPrototype)

lemma processLine_objectPrototype:
  "processLine rawLine st = Inr st' \<Longrightarrow> objectPrototype (globals st') k = None
     \<Longrightarrow> objectPrototype (globals st) k = None"
  by (auto simp: processLine_def Let_def throw_unfold split: if_splits list.splits
      dest: handleSectionHeader_globals handleKeyValue_objectPrototype)

lemma processLines_objectPrototype:
  "processLines ls st = Inr st' \<Longrightarrow> objectPrototype (globals st') k = None
     \<Longrightarrow> objectPrototype (globals st) k = None"
proof (induction ls arbitrary: st)
  case Nil
  then show ?case by simp
next
  case (Cons l ls)
  then show ?case
    by (auto split: sum.splits dest: processLine_objectPrototype)
qed

text \<open>
  With \<open>main\<close> on \<open>Object.prototype\<close> the check at the end of the parse passes without
  a main record, and a setting of a main section is assigned to the inherited string,
  which throws. After a props line with the name of a layer, a layer header finalizes the
  empty layer object the parser starts with.
\<close>

lemma parseConfig_inheritedMainText:
  "map_sum id (mainSettings \<circ> fst) (parseConfig inheritedMainText) = Inr None"
  by code_simp

lemma parseConfig_inheritedMainWidthText:
  "map_sum id (mainSettings \<circ> fst) (parseConfig inheritedMainWidthText) = Inl TypeError"
  by code_simp

lemma processLines_layerInheritedNameText:
  "processLines (split_on (CHR 0x0A) layerInheritedNameText) initialState
     = Inr layerInheritedNameState"
  by (simp add: parser_eval_defs handleProps_def setProp_def tableRead_def
      layerInheritedNameText_def layerInheritedNameState_def)

subsection \<open>The main record\<close>

text \<open>No handler other than \<open>handleMain\<close> touches \<open>main\<close>, and \<open>handleMain\<close> keeps
  \<open>mainStored\<close>.\<close>

lemma pushCurrentLayer_main [simp]: "main (config (pushCurrentLayer st)) = main (config st)"
  by (simp add: pushCurrentLayer_def)

lemma handleSectionHeader_main:
  "handleSectionHeader line st = Inr st' \<Longrightarrow> main (config st') = main (config st)"
  by (auto simp: handleSectionHeader_def Let_def throw_unfold split: if_splits)

lemma handleTileset_main:
  "handleTileset key val st = Inr st' \<Longrightarrow> main (config st') = main (config st)"
  by (auto simp: handleTileset_def Let_def throw_unfold split: if_splits)

lemma handleLayer_main:
  "handleLayer key val st = Inr st' \<Longrightarrow> main (config st') = main (config st)"
  by (auto simp: handleLayer_def Let_def throw_unfold split: if_splits sum.splits)

lemma handleProps_main:
  "handleProps key val st = Inr st' \<Longrightarrow> main (config st') = main (config st)"
  by (auto simp: handleProps_def Let_def throw_unfold
      split: if_splits list.splits sum.splits prod.splits)

lemma handleMain_stored:
  assumes "handleMain key val c g = Inr c'" and "mainStored c"
  shows "mainStored c'"
proof -
  let ?m = "case main c of None \<Rightarrow> Map.empty | Some m \<Rightarrow> m"
  from assms(1) have k: "key \<in> {''tileSize'', ''width'', ''height''}"
    and c': "main c' = Some (?m(key \<mapsto> Number val))"
    by (auto simp: handleMain_def Let_def throw_unfold split: if_splits option.splits)
  have "dom ?m \<subseteq> {''tileSize'', ''width'', ''height''}"
    using assms(2) by (auto simp: mainStored_def split: option.splits)
  with k have "dom (?m(key \<mapsto> Number val)) \<subseteq> {''tileSize'', ''width'', ''height''}"
    by (simp only: dom_fun_upd option.simps if_False) blast
  then show ?thesis
    using c' by (simp add: mainStored_def)
qed

lemma handleKeyValue_stored:
  "handleKeyValue key val st = Inr st' \<Longrightarrow> mainStored (config st) \<Longrightarrow> mainStored (config st')"
  by (auto simp: handleKeyValue_def throw_unfold mainStored_def[of "config st'"] mainStored_def[of "config st"]
       dest: handleTileset_main handleLayer_main handleProps_main handleMain_stored[unfolded mainStored_def]
       split: if_splits sum.splits)

lemma processLine_stored:
  "processLine rawLine st = Inr st' \<Longrightarrow> mainStored (config st) \<Longrightarrow> mainStored (config st')"
  by (auto simp: processLine_def Let_def throw_unfold mainStored_def[of "config st'"] mainStored_def[of "config st"]
       dest: handleSectionHeader_main handleKeyValue_stored[unfolded mainStored_def]
       split: if_splits list.splits)

lemma processLines_stored:
  "processLines ls st = Inr st' \<Longrightarrow> mainStored (config st) \<Longrightarrow> mainStored (config st')"
proof (induction ls arbitrary: st)
  case Nil
  then show ?case by simp
next
  case (Cons l ls)
  then show ?case
    by (auto split: sum.splits dest: processLine_stored)
qed

text \<open>
  C4, counterexample to the claim as stated. The text with the two lines \<open>[main]\<close> and
  \<open>width=0\<close> parses successfully; its main record has neither \<open>tileSize\<close> nor \<open>height\<close>,
  and its \<open>width\<close> is 0.
\<close>

theorem parseConfig_main_unchecked_counterexample:
  "map_sum id (mainSettings \<circ> fst) (parseConfig widthZeroText)
     = Inr (Some (None, Some (Decimal 0), None))"
  by code_simp

text \<open>
  C4, as amended. Unless a props line has put a non-empty \<open>main\<close> on \<open>Object.prototype\<close>
  (identifier \<open>__proto__\<close>): a successfully parsed config has a main record; the record
  holds at least one setting and no key other than \<open>tileSize\<close>, \<open>width\<close> and \<open>height\<close>;
  when the lines are processed without error and no main setting was stored, the parse
  fails with MISSING_SECTION; and a setting is stored as \<open>Number(value)\<close> with no check,
  so a setting can be missing, and a stored one need not be a positive integer.
\<close>

theorem parseConfig_main:
  "(parseConfig raw = Inr (c, g) \<and> objectPrototype g ''main'' \<in> {None, Some []} \<longrightarrow>
      (\<exists>m. main c = Some m \<and> dom m \<noteq> {} \<and> dom m \<subseteq> {''tileSize'', ''width'', ''height''}))
   \<and> (processLines (split_on (CHR 0x0A) raw') initialState = Inr st \<and> main (config st) = None
        \<and> objectPrototype (globals st) ''main'' \<in> {None, Some []} \<longrightarrow>
        parseConfig raw'
          = Inl (TWError MISSING_SECTION ''[MISSING_SECTION] Missing [main] section'' None
                   (Some ''Parser'')))
   \<and> (key \<in> {''tileSize'', ''width'', ''height''}
        \<and> objectPrototype g0 ''main'' \<in> {None, Some []} \<longrightarrow>
        handleMain key val c0 g0 =
          Inr (c0\<lparr>main := Some ((case main c0 of None \<Rightarrow> Map.empty | Some m \<Rightarrow> m)(key \<mapsto> Number val))\<rparr>))"
proof (intro conjI impI)
  assume p: "parseConfig raw = Inr (c, g) \<and> objectPrototype g ''main'' \<in> {None, Some []}"
  then obtain st' where run: "processLines (split_on (CHR 0x0A) raw) initialState = Inr st'"
    and fin: "finishParse st' = Inr (c, g)"
    by (auto simp: parseConfig_def split: sum.splits)
  have "mainStored (config initialState)"
    by (simp add: mainStored_def initialState_def)
  with run have "mainStored (config st')"
    by (rule processLines_stored)
  moreover from fin p have "main c = main (config st')" and "main c \<noteq> None"
    by (auto simp: finishParse_def Let_def throw_unfold truthy_def split: if_splits)
  ultimately show "\<exists>m. main c = Some m \<and> dom m \<noteq> {} \<and> dom m \<subseteq> {''tileSize'', ''width'', ''height''}"
    by (auto simp: mainStored_def split: option.splits)
next
  assume "processLines (split_on (CHR 0x0A) raw') initialState = Inr st \<and> main (config st) = None
        \<and> objectPrototype (globals st) ''main'' \<in> {None, Some []}"
  then show "parseConfig raw'
          = Inl (TWError MISSING_SECTION ''[MISSING_SECTION] Missing [main] section'' None
                   (Some ''Parser''))"
    by (auto simp: parseConfig_def finishParse_def throw_unfold TWErrorHandler_throw_def
        newTWError_def truthy_def)
next
  assume "key \<in> {''tileSize'', ''width'', ''height''}
        \<and> objectPrototype g0 ''main'' \<in> {None, Some []}"
  then show "handleMain key val c0 g0 =
          Inr (c0\<lparr>main := Some ((case main c0 of None \<Rightarrow> Map.empty | Some m \<Rightarrow> m)(key \<mapsto> Number val))\<rparr>)"
    by (auto simp: handleMain_def truthy_def split: option.splits)
qed

lemma parseConfig_widthZeroText: "parseConfig widthZeroText = Inr (widthZeroConfig, freshPage)"
  by (simp add: parser_eval_defs widthZeroText_def widthZeroConfig_def)

lemma processLines_mainHeaderOnlyText:
  "processLines (split_on (CHR 0x0A) mainHeaderOnlyText) initialState
     = Inr (initialState\<lparr>currentSection := ''main''\<rparr>)"
  by (simp add: processLine_def handleSectionHeader_def mainHeaderOnlyText_def joinLines_def
      newline_def trim_def is_space_def startsWith_def slice_1_m1_def Let_def)

theorem parseConfig_main_witness:
  "parseConfig widthZeroText = Inr (widthZeroConfig, freshPage)
   \<and> objectPrototype freshPage ''main'' = None
   \<and> (\<exists>m. main widthZeroConfig = Some m \<and> dom m \<noteq> {}
          \<and> dom m \<subseteq> {''tileSize'', ''width'', ''height''})
   \<and> processLines (split_on (CHR 0x0A) mainHeaderOnlyText) initialState
       = Inr (initialState\<lparr>currentSection := ''main''\<rparr>)
   \<and> main (config (initialState\<lparr>currentSection := ''main''\<rparr>)) = None
   \<and> parseConfig mainHeaderOnlyText
       = Inl (TWError MISSING_SECTION ''[MISSING_SECTION] Missing [main] section'' None
                (Some ''Parser''))
   \<and> handleMain ''width'' ''-3'' (config initialState) freshPage
       = Inr ((config initialState)\<lparr>main := Some [''width'' \<mapsto> Decimal (- 3)]\<rparr>)"
  using parseConfig_main [of widthZeroText widthZeroConfig freshPage mainHeaderOnlyText
      "initialState\<lparr>currentSection := ''main''\<rparr>" "''width''" freshPage "''-3''"
      "config initialState"]
    parseConfig_widthZeroText processLines_mainHeaderOnlyText
  by (simp add: initialState_def freshPage_def truthy_def Number_def trim_def is_space_def
      is_digit_def decimal_value_def digit_value_def Let_def)

subsection \<open>The tileset records\<close>

text \<open>Every handler keeps \<open>tilesetInv\<close>, so it holds in every state the parser reaches.\<close>

lemma pushCurrentLayer_tilesets [simp]:
  "tilesets (config (pushCurrentLayer st)) = tilesets (config st)"
  "tempTileset (pushCurrentLayer st) = tempTileset st"
  by (simp_all add: pushCurrentLayer_def)

lemma handleSectionHeader_tilesetInv:
  "handleSectionHeader line st = Inr st' \<Longrightarrow> tilesetInv st \<Longrightarrow> tilesetInv st'"
  by (auto simp: handleSectionHeader_def Let_def throw_unfold tilesetInv_def tilesetComplete_def
      completeTilesets_def truthy_def split: if_splits)

lemma inherited_free: "objectPrototype g k = None \<Longrightarrow> inherited own k g = own"
  by (cases own) (simp_all add: inherited_def)

lemma handleTileset_free:
  assumes "tilesetKeysFree (globals st)"
  shows "handleTileset key val st =
     (let t = (if key = ''tileset'' then (tempTileset st)\<lparr>t_tileset := Some val\<rparr>
               else if key = ''short'' then (tempTileset st)\<lparr>t_short := Some val\<rparr>
               else tempTileset st)
      in if tilesetComplete t then
           if list_ex (\<lambda>ts. t_short ts = t_short t) (tilesets (config st)) then
             throw DUPLICATE_TILESET (''Duplicate tileset short '' @ dquote @ shown (t_short t) @ dquote)
               (Some val) (Some ''Parser'')
           else if list_ex (\<lambda>ts. t_id ts = t_id t) (tilesets (config st)) then
             throw DUPLICATE_TILESET (''Duplicate tileset id '' @ dquote @ shown (t_id t) @ dquote)
               (Some val) (Some ''Parser'')
           else Inr (st\<lparr>tempTileset := \<lparr>t_id = None, t_tileset = None, t_short = None\<rparr>,
                       config := (config st)\<lparr>tilesets := tilesets (config st) @ [t]\<rparr>\<rparr>)
         else Inr (st\<lparr>tempTileset := t\<rparr>))"
proof -
  from assms have "inherited own ''id'' (globals st) = own"
    "inherited own ''tileset'' (globals st) = own" "inherited own ''short'' (globals st) = own"
    for own
    by (simp_all add: tilesetKeysFree_def inherited_free)
  then show ?thesis
    by (simp add: handleTileset_def Let_def tilesetComplete_def)
qed

lemma handleTileset_tilesetInv:
  assumes "handleTileset key val st = Inr st'" and "tilesetInv st"
  shows "tilesetInv st'"
proof (cases "tilesetKeysFree (globals st)")
  case False
  with handleTileset_globals [OF assms(1)] show ?thesis
    by (simp add: tilesetInv_def)
next
  case True
  define t where "t = (if key = ''tileset'' then (tempTileset st)\<lparr>t_tileset := Some val\<rparr>
               else if key = ''short'' then (tempTileset st)\<lparr>t_short := Some val\<rparr>
               else tempTileset st)"
  from True assms(2) have inv: "completeTilesets (config st)"
    by (simp add: tilesetInv_def)
  show ?thesis
  proof (cases "tilesetComplete t")
    case c: True
    with assms(1) True
    have "st' = st\<lparr>tempTileset := \<lparr>t_id = None, t_tileset = None, t_short = None\<rparr>,
                       config := (config st)\<lparr>tilesets := tilesets (config st) @ [t]\<rparr>\<rparr>"
      by (simp add: handleTileset_free t_def [symmetric] throw_unfold split: if_splits)
    with c inv show ?thesis
      by (simp add: tilesetInv_def completeTilesets_def tilesetComplete_def truthy_def)
  next
    case c: False
    with assms(1) True have "st' = st\<lparr>tempTileset := t\<rparr>"
      by (simp add: handleTileset_free t_def [symmetric])
    with c inv show ?thesis
      by (simp add: tilesetInv_def completeTilesets_def)
  qed
qed

lemma handleLayer_tilesetInv:
  "handleLayer key val st = Inr st' \<Longrightarrow> tilesetInv st \<Longrightarrow> tilesetInv st'"
  by (auto simp: handleLayer_def Let_def throw_unfold tilesetInv_def completeTilesets_def
      split: if_splits sum.splits)

lemma handleProps_tilesets:
  "handleProps key val st = Inr st' \<Longrightarrow>
     tilesets (config st') = tilesets (config st) \<and> tempTileset st' = tempTileset st"
  by (auto simp: handleProps_def Let_def throw_unfold
      split: if_splits list.splits sum.splits prod.splits)

lemma handleProps_tilesetInv:
  assumes "handleProps key val st = Inr st'" and "tilesetInv st"
  shows "tilesetInv st'"
proof -
  have "tilesetKeysFree (globals st)" if "tilesetKeysFree (globals st')"
    using that handleProps_objectPrototype [OF assms(1)] by (simp add: tilesetKeysFree_def)
  then show ?thesis
    using assms(2) handleProps_tilesets [OF assms(1)]
    by (auto simp: tilesetInv_def completeTilesets_def)
qed

lemma handleMain_tilesets:
  "handleMain key val c g = Inr c' \<Longrightarrow> tilesets c' = tilesets c"
  by (auto simp: handleMain_def Let_def throw_unfold split: if_splits option.splits)

lemma handleKeyValue_tilesetInv:
  "handleKeyValue key val st = Inr st' \<Longrightarrow> tilesetInv st \<Longrightarrow> tilesetInv st'"
  unfolding handleKeyValue_def
  by (auto simp: throw_unfold tilesetInv_def[of "st\<lparr>config := c\<rparr>" for c] tilesetInv_def[of st] completeTilesets_def
       dest: handleTileset_tilesetInv handleLayer_tilesetInv handleProps_tilesetInv handleMain_tilesets
       split: if_splits sum.splits)

lemma processLine_tilesetInv:
  "processLine rawLine st = Inr st' \<Longrightarrow> tilesetInv st \<Longrightarrow> tilesetInv st'"
  unfolding processLine_def Let_def
  by (auto simp: throw_unfold
       dest: handleSectionHeader_tilesetInv handleKeyValue_tilesetInv
       split: if_splits list.splits)

lemma processLines_tilesetInv:
  "processLines ls st = Inr st' \<Longrightarrow> tilesetInv st \<Longrightarrow> tilesetInv st'"
proof (induction ls arbitrary: st)
  case Nil
  then show ?case by simp
next
  case (Cons l ls)
  then show ?case
    by (auto split: sum.splits dest: processLine_tilesetInv)
qed

lemma tilesetInv_initialState: "tilesetInv initialState"
  by (simp add: tilesetInv_def initialState_def tilesetComplete_def truthy_def completeTilesets_def)

lemma handleTileset_other_key:
  "\<not> tilesetComplete (tempTileset st) \<Longrightarrow> tilesetKeysFree (globals st)
     \<Longrightarrow> key \<noteq> ''tileset'' \<Longrightarrow> key \<noteq> ''short''
     \<Longrightarrow> handleTileset key val st = Inr st"
  by (simp add: handleTileset_free)

lemma tilesetComplete_fields:
  "tilesetComplete ts \<Longrightarrow>
     \<exists>i u s. ts = \<lparr>t_id = Some i, t_tileset = Some u, t_short = Some s\<rparr>
       \<and> i \<noteq> [] \<and> u \<noteq> [] \<and> s \<noteq> []"
  by (cases ts) (auto simp: tilesetComplete_def truthy_def split: option.splits)

text \<open>
  C10, counterexample to the claim as stated. After the props lines
  \<open>layer.__proto__.tileset=a.png\<close> and \<open>layer.__proto__.short=G\<close> and the header
  \<open>[tileset:t]\<close> no tileset is finalized and the in-progress record holds the id \<open>t\<close>.
  The line \<open>note=x\<close> of that section then finds id, tileset and short all set (two of them
  read from \<open>Object.prototype\<close>): it finalizes the record, which has neither tileset nor
  short of its own, and puts an empty record in its place.
\<close>

theorem tileset_section_inherited_counterexample:
  "map_sum id tilesetRecords
       (processLines (split_on (CHR 0x0A) inheritedTilesetText) initialState)
     = Inr ([], \<lparr>t_id = Some ''t'', t_tileset = None, t_short = None\<rparr>)
   \<and> map_sum id tilesetRecords
       (processLines (split_on (CHR 0x0A) inheritedTilesetNoteText) initialState)
     = Inr ([\<lparr>t_id = Some ''t'', t_tileset = None, t_short = None\<rparr>],
            \<lparr>t_id = None, t_tileset = None, t_short = None\<rparr>)"
  by code_simp

text \<open>
  C10, as amended. While \<open>Object.prototype\<close> holds none of \<open>id\<close>, \<open>tileset\<close> and \<open>short\<close>
  (no props line with the identifier \<open>__proto__\<close> has put one there): in a tileset
  section, in any state the parser reaches, a key=value line whose key is neither
  \<open>tileset\<close> nor \<open>short\<close> succeeds and leaves the parser state as it was, and every
  tileset of a parsed config has an id, a tileset and a short of its own. In the main
  section an unknown key throws MISSING_KEY_VALUE. The end of the input does not look at
  the in-progress tileset record: the result is the same whatever that record holds, and
  the tilesets of the result are those finalized before.
\<close>

theorem tileset_section_lenient:
  "(processLines ls initialState = Inr st \<and> currentSection st = ''tileset''
      \<and> key \<noteq> ''tileset'' \<and> key \<noteq> ''short''
      \<and> objectPrototype (globals st) ''id'' = None
      \<and> objectPrototype (globals st) ''tileset'' = None
      \<and> objectPrototype (globals st) ''short'' = None
      \<longrightarrow> handleKeyValue key val st = Inr st)
   \<and> (key \<notin> set [''tileSize'', ''width'', ''height''] \<longrightarrow>
        handleMain key val c g =
          Inl (TWError MISSING_KEY_VALUE
                 (''[MISSING_KEY_VALUE] Unknown main property '' @ [CHR 0x22] @ key @ [CHR 0x22])
                 (Some key) (Some ''Parser'')))
   \<and> finishParse (st\<lparr>tempTileset := t\<rparr>) = finishParse st
   \<and> (finishParse st = Inr (c', g') \<longrightarrow> tilesets c' = tilesets (config st))
   \<and> (parseConfig raw = Inr (c'', g'')
        \<and> objectPrototype g'' ''id'' = None \<and> objectPrototype g'' ''tileset'' = None
        \<and> objectPrototype g'' ''short'' = None \<longrightarrow>
        (\<forall>ts \<in> set (tilesets c'').
           \<exists>i u s. ts = \<lparr>t_id = Some i, t_tileset = Some u, t_short = Some s\<rparr>
             \<and> i \<noteq> [] \<and> u \<noteq> [] \<and> s \<noteq> []))"
proof (intro conjI impI)
  assume a: "processLines ls initialState = Inr st \<and> currentSection st = ''tileset''
      \<and> key \<noteq> ''tileset'' \<and> key \<noteq> ''short''
      \<and> objectPrototype (globals st) ''id'' = None
      \<and> objectPrototype (globals st) ''tileset'' = None
      \<and> objectPrototype (globals st) ''short'' = None"
  then have "tilesetInv st"
    using processLines_tilesetInv tilesetInv_initialState by blast
  moreover from a have free: "tilesetKeysFree (globals st)"
    by (simp add: tilesetKeysFree_def)
  ultimately have "\<not> tilesetComplete (tempTileset st)"
    by (simp add: tilesetInv_def)
  with a free show "handleKeyValue key val st = Inr st"
    by (simp add: handleKeyValue_def handleTileset_other_key)
next
  assume "key \<notin> set [''tileSize'', ''width'', ''height'']"
  then show "handleMain key val c g =
          Inl (TWError MISSING_KEY_VALUE
                 (''[MISSING_KEY_VALUE] Unknown main property '' @ [CHR 0x22] @ key @ [CHR 0x22])
                 (Some key) (Some ''Parser''))"
    by (simp add: handleMain_def throw_unfold TWErrorHandler_throw_def newTWError_def dquote_def
        split: option.splits)
next
  have "pushCurrentLayer (st\<lparr>tempTileset := t\<rparr>) = (pushCurrentLayer st)\<lparr>tempTileset := t\<rparr>"
    by (simp add: pushCurrentLayer_def)
  then show "finishParse (st\<lparr>tempTileset := t\<rparr>) = finishParse st"
    by (simp add: finishParse_def Let_def)
next
  assume "finishParse st = Inr (c', g')"
  then show "tilesets c' = tilesets (config st)"
    by (auto simp: finishParse_def Let_def throw_unfold split: if_splits)
next
  assume p: "parseConfig raw = Inr (c'', g'')
        \<and> objectPrototype g'' ''id'' = None \<and> objectPrototype g'' ''tileset'' = None
        \<and> objectPrototype g'' ''short'' = None"
  then obtain st' where run: "processLines (split_on (CHR 0x0A) raw) initialState = Inr st'"
    and fin: "finishParse st' = Inr (c'', g'')"
    by (auto simp: parseConfig_def split: sum.splits)
  from run have "tilesetInv st'"
    using processLines_tilesetInv tilesetInv_initialState by blast
  moreover from fin have "tilesets c'' = tilesets (config st')" and "g'' = globals st'"
    by (auto simp: finishParse_def Let_def throw_unfold split: if_splits)
  ultimately have "\<forall>ts \<in> set (tilesets c''). tilesetComplete ts"
    using p by (simp add: tilesetInv_def tilesetKeysFree_def completeTilesets_def)
  then show "\<forall>ts \<in> set (tilesets c'').
           \<exists>i u s. ts = \<lparr>t_id = Some i, t_tileset = Some u, t_short = Some s\<rparr>
             \<and> i \<noteq> [] \<and> u \<noteq> [] \<and> s \<noteq> []"
    using tilesetComplete_fields by blast
qed

lemma processLines_tilesetPendingText:
  "processLines (split_on (CHR 0x0A) tilesetPendingText) initialState = Inr tilesetPendingState"
  by (simp add: parser_eval_defs tilesetPendingText_def tilesetPendingState_def)

lemma parseConfig_tilesetFullText:
  "parseConfig tilesetFullText = Inr (tilesetFullConfig, freshPage)"
  by (simp add: parser_eval_defs tilesetFullText_def tilesetFullConfig_def)

theorem tileset_section_lenient_witness:
  "processLines (split_on (CHR 0x0A) tilesetPendingText) initialState = Inr tilesetPendingState
   \<and> currentSection tilesetPendingState = ''tileset''
   \<and> globals tilesetPendingState = freshPage
   \<and> objectPrototype freshPage ''id'' = None
   \<and> objectPrototype freshPage ''tileset'' = None
   \<and> objectPrototype freshPage ''short'' = None
   \<and> handleKeyValue ''note'' ''x'' tilesetPendingState = Inr tilesetPendingState
   \<and> handleMain ''note'' ''x'' (config initialState) freshPage
       = Inl (TWError MISSING_KEY_VALUE (''[MISSING_KEY_VALUE] Unknown main property '' @ [CHR 0x22] @ ''note'' @ [CHR 0x22])
                (Some ''note'') (Some ''Parser''))
   \<and> finishParse tilesetPendingState = Inr (config tilesetPendingState, freshPage)
   \<and> tilesets (config tilesetPendingState) = []
   \<and> parseConfig tilesetFullText = Inr (tilesetFullConfig, freshPage)
   \<and> tilesets tilesetFullConfig
       = [\<lparr>t_id = Some ''t'', t_tileset = Some ''a.png'', t_short = Some ''G''\<rparr>]"
  using tileset_section_lenient [of "split_on (CHR 0x0A) tilesetPendingText" tilesetPendingState
      "''note''" "''x''" "config initialState" freshPage "tempTileset initialState"
      "config tilesetPendingState" freshPage tilesetFullText tilesetFullConfig freshPage]
    processLines_tilesetPendingText parseConfig_tilesetFullText
  by (simp add: tilesetPendingState_def tilesetFullConfig_def finishParse_def
      pushCurrentLayer_def freshPage_def inherited_def truthy_def)

subsection \<open>The tiles of a layer\<close>

text \<open>The two loops over rows and cells succeed exactly when every trimmed cell is valid, and fail with the error of an invalid cell.\<close>

lemma validateCells_valid:
  "\<forall>c \<in> set cells. validateTileFormat (trim c) row = Inr () \<Longrightarrow>
     validateCells row cells = Inr (map trim cells)"
  by (induction cells) (simp_all add: Let_def)

lemma validateCells_InrD:
  "validateCells row cells = Inr r \<Longrightarrow>
     (\<forall>c \<in> set cells. validateTileFormat (trim c) row = Inr ()) \<and> r = map trim cells"
  by (induction cells arbitrary: r) (auto simp: Let_def split: sum.splits)

lemma validateCells_Inl:
  "validateCells row cells = Inl e \<Longrightarrow>
     \<exists>c \<in> set cells. validateTileFormat (trim c) row = Inl e"
  by (induction cells) (auto simp: Let_def split: sum.splits)

lemma parseRows_valid:
  "\<forall>row \<in> set rows. \<forall>c \<in> set (split_on CHR '','' row). validateTileFormat (trim c) row = Inr ()
     \<Longrightarrow> parseRows rows = Inr (map (\<lambda>row. map trim (split_on CHR '','' row)) rows)"
  by (induction rows) (simp_all add: validateCells_valid)

lemma parseRows_InrD:
  "parseRows rows = Inr g \<Longrightarrow>
     (\<forall>row \<in> set rows. \<forall>c \<in> set (split_on CHR '','' row). validateTileFormat (trim c) row = Inr ())"
  by (induction rows arbitrary: g) (auto split: sum.splits dest: validateCells_InrD)

lemma parseRows_Inl:
  "parseRows rows = Inl e \<Longrightarrow>
     \<exists>row \<in> set rows. \<exists>c \<in> set (split_on CHR '','' row). validateTileFormat (trim c) row = Inl e"
  by (induction rows) (auto split: sum.splits dest: validateCells_Inl)

lemma parseConfig_layerText:
  "map_sum id (layers \<circ> fst) (parseConfig layerText)
     = Inr [\<lparr>cl_name = Some ''bg'', cl_tiles = Some [[''G0'', ''0''], [''0'', ''S1'']]\<rparr>]"
  by code_simp

text \<open>
  C7, counterexample to the claim as stated. In the third layer section of the text
  \<open>[layer:a]\<close>, \<open>[layer:b]\<close>, \<open>[layer:a]\<close>, \<open>tiles=G0,g-1\<close> the value of \<open>tiles\<close> is neither
  split nor validated: the line fails with DUPLICATE_LAYER, not with the
  INVALID_TILE_SYNTAX of the cell \<open>g-1\<close>.
\<close>

theorem handleLayer_duplicate_counterexample:
  "map_sum id (layers \<circ> fst) (parseConfig layerDuplicateText)
     = Inl (TWError DUPLICATE_LAYER
              (''[DUPLICATE_LAYER] Duplicate layer name '' @ [CHR 0x22] @ ''a'' @ [CHR 0x22])
              (Some ''G0,g-1'') (Some ''Parser''))"
  by code_simp

text \<open>
  C7, as amended. A layer's name is read as the code reads it (the layer's own \<open>name\<close>,
  else that of \<open>Object.prototype\<close>). In a layer section whose name a finalized layer has,
  a line with the key \<open>tiles\<close> fails with DUPLICATE_LAYER, whatever its value. In a layer
  section whose name no finalized layer has, the value of the key \<open>tiles\<close> is split on
  \<open>;\<close> into rows, the rows are trimmed and the blank ones dropped, each row is split on
  \<open>,\<close> into cells and each cell is trimmed and validated with the row as context; when
  every cell is valid the grid of the trimmed cells becomes the tiles of the current
  layer; otherwise the parse fails with the INVALID_TILE_SYNTAX of an invalid cell. The
  layer declared \<open>tiles=G0,0;0,S1\<close> parses to the grid \<open>[["G0","0"],["0","S1"]]\<close>.
\<close>

theorem handleLayer_tiles:
  "(list_ex (\<lambda>t. inherited (cl_name t) ''name'' (globals st)
                   = inherited (cl_name (currentLayer st)) ''name'' (globals st))
        (layers (config st)) \<longrightarrow>
      handleLayer ''tiles'' val st
        = Inl (TWError DUPLICATE_LAYER
                 (''[DUPLICATE_LAYER] Duplicate layer name '' @ [CHR 0x22]
                    @ (case inherited (cl_name (currentLayer st)) ''name'' (globals st) of
                         None \<Rightarrow> ''undefined'' | Some n \<Rightarrow> n)
                    @ [CHR 0x22])
                 (Some val) (Some ''Parser'')))
   \<and> (\<not> list_ex (\<lambda>t. inherited (cl_name t) ''name'' (globals st)
                   = inherited (cl_name (currentLayer st)) ''name'' (globals st))
          (layers (config st)) \<longrightarrow>
     (let rows = filter (\<lambda>r. r \<noteq> []) (map trim (split_on CHR '';'' val));
          cells = (\<lambda>row. map trim (split_on CHR '','' row))
      in ((\<forall>row \<in> set rows. \<forall>cell \<in> set (cells row). validateTileFormat cell row = Inr ()) \<longrightarrow>
            handleLayer ''tiles'' val st
              = Inr (st\<lparr>currentLayer := (currentLayer st)\<lparr>cl_tiles := Some (map cells rows)\<rparr>\<rparr>))
         \<and> (\<not> (\<forall>row \<in> set rows. \<forall>cell \<in> set (cells row). validateTileFormat cell row = Inr ()) \<longrightarrow>
              (\<exists>row \<in> set rows. \<exists>cell \<in> set (cells row).
                  validateTileFormat cell row \<noteq> Inr ()
                  \<and> handleLayer ''tiles'' val st
                      = Inl (TWError INVALID_TILE_SYNTAX
                               (''[INVALID_TILE_SYNTAX] Invalid tile format: '' @ [CHR 0x22]
                                  @ trim cell @ [CHR 0x22]
                                  @ ''. Expected like G0 or S1 or 0 for empty tiles.'')
                               (Some row) (Some ''TileValidator''))))))
   \<and> map_sum id (layers \<circ> fst) (parseConfig layerText)
       = Inr [\<lparr>cl_name = Some ''bg'', cl_tiles = Some [[''G0'', ''0''], [''0'', ''S1'']]\<rparr>]"
proof (intro conjI impI)
  assume "list_ex (\<lambda>t. inherited (cl_name t) ''name'' (globals st)
                   = inherited (cl_name (currentLayer st)) ''name'' (globals st))
        (layers (config st))"
  then show "handleLayer ''tiles'' val st
        = Inl (TWError DUPLICATE_LAYER
                 (''[DUPLICATE_LAYER] Duplicate layer name '' @ [CHR 0x22]
                    @ (case inherited (cl_name (currentLayer st)) ''name'' (globals st) of
                         None \<Rightarrow> ''undefined'' | Some n \<Rightarrow> n)
                    @ [CHR 0x22])
                 (Some val) (Some ''Parser''))"
    by (simp add: handleLayer_def Let_def throw_unfold TWErrorHandler_throw_def newTWError_def
        dquote_def shown_def)
next
  assume nd: "\<not> list_ex (\<lambda>t. inherited (cl_name t) ''name'' (globals st)
                   = inherited (cl_name (currentLayer st)) ''name'' (globals st))
          (layers (config st))"
  define rows where "rows = filter (\<lambda>r. r \<noteq> []) (map trim (split_on CHR '';'' val))"
  define cells where "cells = (\<lambda>row. map trim (split_on CHR '','' row))"
  define msg where "msg = (\<lambda>cell. ''[INVALID_TILE_SYNTAX] Invalid tile format: '' @ [CHR 0x22]
                                  @ trim cell @ [CHR 0x22]
                                  @ ''. Expected like G0 or S1 or 0 for empty tiles.'')"
  have hl: "handleLayer ''tiles'' val st =
      (case parseRows rows of
         Inl e \<Rightarrow> Inl e
       | Inr g \<Rightarrow> Inr (st\<lparr>currentLayer := (currentLayer st)\<lparr>cl_tiles := Some g\<rparr>\<rparr>))"
    using nd by (simp add: handleLayer_def Let_def rows_def split: sum.splits)
  have ok: "(\<forall>row \<in> set rows. \<forall>cell \<in> set (cells row). validateTileFormat cell row = Inr ())
      \<Longrightarrow> handleLayer ''tiles'' val st
              = Inr (st\<lparr>currentLayer := (currentLayer st)\<lparr>cl_tiles := Some (map cells rows)\<rparr>\<rparr>)"
  proof -
    assume "\<forall>row \<in> set rows. \<forall>cell \<in> set (cells row). validateTileFormat cell row = Inr ()"
    then have "parseRows rows = Inr (map cells rows)"
      using parseRows_valid [of rows] by (simp add: cells_def)
    then show ?thesis by (simp add: hl)
  qed
  have bad: "\<not> (\<forall>row \<in> set rows. \<forall>cell \<in> set (cells row). validateTileFormat cell row = Inr ())
      \<Longrightarrow> (\<exists>row \<in> set rows. \<exists>cell \<in> set (cells row).
                  validateTileFormat cell row \<noteq> Inr ()
                  \<and> handleLayer ''tiles'' val st
                      = Inl (TWError INVALID_TILE_SYNTAX (msg cell) (Some row) (Some ''TileValidator'')))"
  proof -
    assume "\<not> (\<forall>row \<in> set rows. \<forall>cell \<in> set (cells row). validateTileFormat cell row = Inr ())"
    then have "\<not> (\<exists>g. parseRows rows = Inr g)"
      using parseRows_InrD [of rows] by (auto simp: cells_def)
    then obtain e where e: "parseRows rows = Inl e"
      by (cases "parseRows rows") auto
    then obtain row c where rc: "row \<in> set rows" "c \<in> set (split_on CHR '','' row)"
      "validateTileFormat (trim c) row = Inl e"
      using parseRows_Inl by blast
    then have "e = newTWError INVALID_TILE_SYNTAX (invalid_tile_message (trim (trim c))) (Some row)
           (Some ''TileValidator'')"
      using validateTileFormat_Inl by blast
    then have "e = TWError INVALID_TILE_SYNTAX (msg (trim c)) (Some row) (Some ''TileValidator'')"
      by (simp add: newTWError_def invalid_tile_message_def dquote_def msg_def)
    moreover have "trim c \<in> set (cells row)"
      using rc(2) by (simp add: cells_def)
    ultimately show ?thesis
      using rc e hl by (intro bexI [of _ row] bexI [of _ "trim c"]) auto
  qed
  show "let rows = filter (\<lambda>r. r \<noteq> []) (map trim (split_on CHR '';'' val));
          cells = (\<lambda>row. map trim (split_on CHR '','' row))
      in ((\<forall>row \<in> set rows. \<forall>cell \<in> set (cells row). validateTileFormat cell row = Inr ()) \<longrightarrow>
            handleLayer ''tiles'' val st
              = Inr (st\<lparr>currentLayer := (currentLayer st)\<lparr>cl_tiles := Some (map cells rows)\<rparr>\<rparr>))
         \<and> (\<not> (\<forall>row \<in> set rows. \<forall>cell \<in> set (cells row). validateTileFormat cell row = Inr ()) \<longrightarrow>
              (\<exists>row \<in> set rows. \<exists>cell \<in> set (cells row).
                  validateTileFormat cell row \<noteq> Inr ()
                  \<and> handleLayer ''tiles'' val st
                      = Inl (TWError INVALID_TILE_SYNTAX
                               (''[INVALID_TILE_SYNTAX] Invalid tile format: '' @ [CHR 0x22]
                                  @ trim cell @ [CHR 0x22]
                                  @ ''. Expected like G0 or S1 or 0 for empty tiles.'')
                               (Some row) (Some ''TileValidator''))))"
    unfolding Let_def rows_def [symmetric] cells_def [symmetric]
    using ok bad unfolding msg_def by blast
next
  show "map_sum id (layers \<circ> fst) (parseConfig layerText)
       = Inr [\<lparr>cl_name = Some ''bg'', cl_tiles = Some [[''G0'', ''0''], [''0'', ''S1'']]\<rparr>]"
    by (rule parseConfig_layerText)
qed

theorem handleLayer_tiles_witness:
  "handleLayer ''tiles'' ''G0,g-1'' layerDuplicateState
       = Inl (TWError DUPLICATE_LAYER
                (''[DUPLICATE_LAYER] Duplicate layer name '' @ [CHR 0x22] @ ''a'' @ [CHR 0x22])
                (Some ''G0,g-1'') (Some ''Parser''))
   \<and> handleLayer ''tiles'' ''G0'' layerInheritedNameState
       = Inl (TWError DUPLICATE_LAYER
                (''[DUPLICATE_LAYER] Duplicate layer name '' @ [CHR 0x22] @ ''a'' @ [CHR 0x22])
                (Some ''G0'') (Some ''Parser''))
   \<and> handleLayer ''tiles'' ''G0, 0 ;; 0,S1 '' layerOpenState
       = Inr (layerOpenState\<lparr>currentLayer :=
                \<lparr>cl_name = Some ''bg'', cl_tiles = Some [[''G0'', ''0''], [''0'', ''S1'']]\<rparr>\<rparr>)
   \<and> handleLayer ''tiles'' ''G0,g-1'' layerOpenState
       = Inl (TWError INVALID_TILE_SYNTAX
                (''[INVALID_TILE_SYNTAX] Invalid tile format: '' @ [CHR 0x22] @ ''g-1'' @ [CHR 0x22]
                   @ ''. Expected like G0 or S1 or 0 for empty tiles.'')
                (Some ''G0,g-1'') (Some ''TileValidator''))"
  using handleLayer_tiles [of layerDuplicateState "''G0,g-1''"]
    handleLayer_tiles [of layerInheritedNameState "''G0''"]
    handleLayer_tiles [of layerOpenState "''G0, 0 ;; 0,S1 ''"]
    handleLayer_tiles [of layerOpenState "''G0,g-1''"]
  by (simp add: layerOpenState_def layerDuplicateState_def layerInheritedNameState_def
      initialState_def freshPage_def
      inherited_def handleLayer_def Let_def trim_def
      is_space_def validateTileFormat_unfold tile_regex_test_def is_alpha_def is_upper_def
      is_lower_def is_digit_def throw_unfold TWErrorHandler_throw_def newTWError_def
      invalid_tile_message_def dquote_def shown_def truthy_def)

section \<open>Properties of the scene builder\<close>

subsection \<open>The scenes of the examples\<close>

text \<open>What the constructor builds from the example configs.\<close>

lemma lowerConfig_scene:
  "(newSceneBuilder ''#scene'' True lowerConfig :: error + unit SceneBuilder)
     = Inr (sceneWith lowerConfig [] [(''bg'', 1)])"
  by (simp add: newSceneBuilder_def buildScene_def sceneWith_def lowerConfig_def
      createGridElement_def createTileElement_def validateTileFormat_unfold trim_def is_space_def
      tile_regex_test_def is_alpha_def is_upper_def is_lower_def is_digit_def Let_def)

lemma emptyConfig_scene:
  "(newSceneBuilder ''#scene'' True emptyConfig :: error + unit SceneBuilder)
     = Inr (sceneWith emptyConfig [] [])"
  by (simp add: newSceneBuilder_def buildScene_def sceneWith_def emptyConfig_def)

lemma propsConfig_scene:
  "(newSceneBuilder ''#scene'' True propsConfig :: error + unit SceneBuilder)
     = Inr (sceneWith propsConfig [] [(''ground'', 1)])"
  by (simp add: newSceneBuilder_def buildScene_def sceneWith_def propsConfig_def
      createGridElement_def createTileElement_def validateTileFormat_unfold trim_def is_space_def
      tile_regex_test_def is_alpha_def is_upper_def is_lower_def is_digit_def Let_def)

subsection \<open>Tile metadata\<close>

text \<open>
  What \<open>getTileMetadataStack\<close> does when it returns: one record for each layer whose cell
  is not empty, in the order of the layers (static, then runtime), each with the leading
  run of uppercase letters of the tile code as short and the id of the tileset of that
  short.
\<close>

lemma tileMetadata_fields:
  "tileMetadata c layer tileCode = Inr md \<Longrightarrow>
     tile md = tileCode \<and> layerName md = name layer
     \<and> tilesetShort md = takeWhile is_upper tileCode \<and> tilesetShort md \<noteq> []
     \<and> find (\<lambda>t. short t = tilesetShort md) (tilesets c) \<noteq> None
     \<and> map_option ts_id (find (\<lambda>t. short t = tilesetShort md) (tilesets c)) = Some (tilesetId md)"
  by (auto simp: tileMetadata_def matchUpperPrefix_def Let_def split: option.splits if_splits)

lemma stackLoop_layers:
  "stackLoop c x y ls = Inr stack \<Longrightarrow>
     map layerName stack
       = map name (filter (\<lambda>l. cellAt (tiles l) x y \<noteq> [] \<and> cellAt (tiles l) x y \<noteq> ''0'') ls)
     \<and> map tile stack
       = filter (\<lambda>t. t \<noteq> [] \<and> t \<noteq> ''0'') (map (\<lambda>l. cellAt (tiles l) x y) ls)"
proof (induction ls arbitrary: stack)
  case Nil
  then show ?case by simp
next
  case (Cons layer ls)
  show ?case
  proof (cases "cellAt (tiles layer) x y = [] \<or> cellAt (tiles layer) x y = ''0''")
    case True
    with Cons show ?thesis by (auto simp: Let_def)
  next
    case False
    with Cons.prems obtain m ms where
      m: "tileMetadata c layer (cellAt (tiles layer) x y) = Inr m"
      and ms: "stackLoop c x y ls = Inr ms" and st: "stack = m # ms"
      by (auto simp: Let_def split: sum.splits)
    from m have "layerName m = name layer" "tile m = cellAt (tiles layer) x y"
      by (simp_all add: tileMetadata_fields)
    with False st Cons.IH [OF ms] show ?thesis by auto
  qed
qed

text \<open>
  C1 (the code departs from the claim). For a tile code with a lowercase prefix
  \<open>getTileMetadataStack\<close> emits no record: the prefix is matched with \<open>/^[A-Z]+/\<close>, which
  gives null on \<open>g0\<close>, no tileset is found and reading its id is a TypeError, although
  the scene was built from that config and \<open>createTileElement\<close> resolves \<open>g0\<close> to the
  tileset of short \<open>g\<close>. For the mixed-case code \<open>Gr0\<close> the record carries the short
  \<open>G\<close> and the id of that tileset, not the full prefix \<open>Gr\<close> that \<open>createTileElement\<close>
  resolves.
\<close>

theorem getTileMetadataStack_uppercase_only:
  "(newSceneBuilder ''#scene'' True lowerConfig :: error + unit SceneBuilder)
     = Inr (sceneWith lowerConfig [] [(''bg'', 1)])
   \<and> createTileElement ''g0'' 0 0 lowerConfig
     = Inr (Some \<lparr>ts_id = ''grass'', tileset = ''g.png'', short = ''g''\<rparr>)
   \<and> map_sum id (map shortAndId) (getTileMetadataStack 0 0 (sceneWith lowerConfig [] [(''bg'', 1)]))
     = Inl TypeError
   \<and> createTileElement ''Gr0'' 0 0 mixedConfig
     = Inr (Some \<lparr>ts_id = ''gravel'', tileset = ''gr.png'', short = ''Gr''\<rparr>)
   \<and> map_sum id (map shortAndId) (getTileMetadataStack 0 0 (sceneWith mixedConfig [] [(''bg'', 1)]))
     = Inr [(''G'', ''grass'')]"
proof -
  have "createTileElement ''g0'' 0 0 lowerConfig
          = Inr (Some \<lparr>ts_id = ''grass'', tileset = ''g.png'', short = ''g''\<rparr>)
      \<and> map_sum id (map shortAndId)
            (getTileMetadataStack 0 0 (sceneWith lowerConfig [] [(''bg'', 1)]))
          = Inl TypeError
      \<and> createTileElement ''Gr0'' 0 0 mixedConfig
          = Inr (Some \<lparr>ts_id = ''gravel'', tileset = ''gr.png'', short = ''Gr''\<rparr>)
      \<and> map_sum id (map shortAndId)
            (getTileMetadataStack 0 0 (sceneWith mixedConfig [] [(''bg'', 1)]))
          = Inr [(''G'', ''grass'')]"
    by code_simp
  with lowerConfig_scene show ?thesis by blast
qed

subsection \<open>Runtime layers\<close>

text \<open>The grid element of an all-empty layer is created without error, so
  \<open>createRuntimeLayer\<close> throws only on a name collision; in every other case both
  pushes happen. The grids of the runtime layers keep their size.\<close>

lemma createRowElements_empty:
  "createRowElements c y x (replicate n ''0'') = Inr n"
  by (induction n arbitrary: x) (simp_all add: createTileElement_def)

lemma createGridRows_empty:
  "createGridRows c y (replicate h (replicate w ''0'')) = Inr (h * w)"
  by (induction h arbitrary: y) (simp_all add: createRowElements_empty)

lemma createRuntimeLayer_result:
  "createRuntimeLayer lname s =
     (if list_ex (\<lambda>l. name l = lname) (layers (sceneConfig s))
         \<or> list_ex (\<lambda>l. name l = lname) (runtimeLayers s)
      then (Some (newTWError LAYER_ALREADY_EXISTS
                    (''Layer with name '' @ dquote @ lname @ dquote @ '' already exists.'')
                    (Some (''layerName: '' @ lname)) (Some ''SceneBuilder'')), s)
      else (None,
            s\<lparr>runtimeLayers := runtimeLayers s @
                 [\<lparr>name = lname,
                   tiles = createEmpty2DArray (width (main (sceneConfig s))) (height (main (sceneConfig s)))\<rparr>,
                  \<lparr>name = lname,
                   tiles = createEmpty2DArray (width (main (sceneConfig s))) (height (main (sceneConfig s)))\<rparr>],
               domLayers := domLayers s @
                 [(lname, nat (height (main (sceneConfig s))) * nat (width (main (sceneConfig s))))]\<rparr>))"
  by (simp add: createRuntimeLayer_def addRuntimeLayerToDOM_def Let_def createGridElement_def
      createEmpty2DArray_def createGridRows_empty)

lemma createRuntimeLayer_grids:
  "runtimeGridsOK s \<Longrightarrow> runtimeGridsOK (snd (createRuntimeLayer lname s))"
  by (auto simp: createRuntimeLayer_result runtimeGridsOK_def createEmpty2DArray_def)

text \<open>
  C2 (the code departs from the claim). \<open>createRuntimeLayer\<close> with a fresh name succeeds,
  but the runtime-layer list gets two new entries of that name, each with an all-empty
  grid: one pushed by \<open>createRuntimeLayer\<close> itself and one by \<open>addRuntimeLayerToDOM\<close>. A
  second call with the same name fails with LAYER_ALREADY_EXISTS and changes nothing.
\<close>

theorem createRuntimeLayer_pushes_twice:
  "(newSceneBuilder ''#scene'' True emptyConfig :: error + unit SceneBuilder)
     = Inr (sceneWith emptyConfig [] [])
   \<and> map_prod id runtimeLayers (createRuntimeLayer ''furniture'' (sceneWith emptyConfig [] []))
     = (None, [\<lparr>name = ''furniture'', tiles = [[''0'', ''0'']]\<rparr>,
               \<lparr>name = ''furniture'', tiles = [[''0'', ''0'']]\<rparr>])
   \<and> map_prod (map_option err_code) runtimeLayers
       (createRuntimeLayer ''furniture''
          (snd (createRuntimeLayer ''furniture'' (sceneWith emptyConfig [] []))))
     = (Some LAYER_ALREADY_EXISTS,
        [\<lparr>name = ''furniture'', tiles = [[''0'', ''0'']]\<rparr>,
         \<lparr>name = ''furniture'', tiles = [[''0'', ''0'']]\<rparr>])"
proof -
  have "map_prod id runtimeLayers (createRuntimeLayer ''furniture'' (sceneWith emptyConfig [] []))
          = (None, [\<lparr>name = ''furniture'', tiles = [[''0'', ''0'']]\<rparr>,
                    \<lparr>name = ''furniture'', tiles = [[''0'', ''0'']]\<rparr>])
      \<and> map_prod (map_option err_code) runtimeLayers
            (createRuntimeLayer ''furniture''
               (snd (createRuntimeLayer ''furniture'' (sceneWith emptyConfig [] []))))
          = (Some LAYER_ALREADY_EXISTS,
             [\<lparr>name = ''furniture'', tiles = [[''0'', ''0'']]\<rparr>,
              \<lparr>name = ''furniture'', tiles = [[''0'', ''0'']]\<rparr>])"
    by code_simp
  with emptyConfig_scene show ?thesis by blast
qed

subsection \<open>Adding a tile\<close>

text \<open>The three checks of \<open>addTile\<close> come in the order syntax, layer, position, and each
  throws before the grid is touched. On grids of the size of \<open>main\<close> the write is inside
  the grid, so \<open>addTile\<close> always has a result in the model, and the grids keep their
  size.\<close>

lemma find_layer_in_set:
  "find P ls = Some l \<Longrightarrow> l \<in> set ls \<and> P l"
  by (induction ls) (auto split: if_splits)

lemma updateFirst_set:
  "l \<in> set (updateFirst P f ls) \<Longrightarrow> l \<in> set ls \<or> (\<exists>l' \<in> set ls. l = f l')"
  by (induction ls) (auto split: if_splits)

lemma updateTileInDOM_state: "snd (updateTileInDOM lname x y s) = s"
  by (auto simp: updateTileInDOM_def Let_def split: option.splits sum.splits)

lemma addTile_checks:
  "(validateTileFormat tileCode
      (''addTile: '' @ tileCode @ '' @ ('' @ string_of_int x @ '','' @ string_of_int y @ '')'') = Inl e
      \<longrightarrow> addTile lname x y tileCode s = Some (Some e, s))
   \<and> (validateTileFormat tileCode
      (''addTile: '' @ tileCode @ '' @ ('' @ string_of_int x @ '','' @ string_of_int y @ '')'') = Inr ()
      \<and> \<not> list_ex (\<lambda>l. name l = lname) (runtimeLayers s)
      \<longrightarrow> addTile lname x y tileCode s =
            Some (Some (newTWError LAYER_NOT_FOUND
                          (''Layer '' @ dquote @ lname @ dquote @ '' does not exist.'')
                          (Some (''layerName: '' @ lname)) (Some ''SceneBuilder'')), s))
   \<and> (validateTileFormat tileCode
      (''addTile: '' @ tileCode @ '' @ ('' @ string_of_int x @ '','' @ string_of_int y @ '')'') = Inr ()
      \<and> list_ex (\<lambda>l. name l = lname) (runtimeLayers s)
      \<and> (x < 0 \<or> x \<ge> width (main (sceneConfig s)) \<or> y < 0 \<or> y \<ge> height (main (sceneConfig s)))
      \<longrightarrow> addTile lname x y tileCode s =
            Some (Some (newTWError INVALID_TILE_POSITION
                          (''Invalid position ('' @ string_of_int x @ '', '' @ string_of_int y
                             @ '') for layer '' @ dquote @ lname @ dquote @ ''.'')
                          (Some (positionContext x y (width (main (sceneConfig s)))
                                   (height (main (sceneConfig s)))))
                          (Some ''SceneBuilder'')), s))"
  by (auto simp: addTile_def Let_def list_ex_iff find_None_iff split: option.splits dest: find_layer_in_set)

lemma addTile_defined:
  assumes "runtimeGridsOK s"
  shows "\<exists>r. addTile lname x y tileCode s = Some r \<and> runtimeGridsOK (snd r)"
proof (cases "validateTileFormat tileCode
      (''addTile: '' @ tileCode @ '' @ ('' @ string_of_int x @ '','' @ string_of_int y @ '')'')")
  case (Inl e)
  with assms show ?thesis by (simp add: addTile_def)
next
  case (Inr u)
  show ?thesis
  proof (cases "find (\<lambda>l. name l = lname) (runtimeLayers s)")
    case None
    with Inr assms show ?thesis by (simp add: addTile_def)
  next
    case (Some layer)
    then have lyr: "layer \<in> set (runtimeLayers s)"
      by (simp add: find_layer_in_set)
    let ?w = "width (main (sceneConfig s))" and ?h = "height (main (sceneConfig s))"
    show ?thesis
    proof (cases "x < 0 \<or> x \<ge> ?w \<or> y < 0 \<or> y \<ge> ?h")
      case True
      with Inr Some assms show ?thesis by (auto simp: addTile_def Let_def)
    next
      case False
      then have y: "nat y < length (tiles layer)"
        using assms lyr by (auto simp: runtimeGridsOK_def)
      then have "tiles layer ! nat y \<in> set (tiles layer)" by simp
      then have x: "nat x < length (tiles layer ! nat y)"
        using assms lyr False by (auto simp: runtimeGridsOK_def)
      let ?g = "(tiles layer)[nat y := (tiles layer ! nat y)[nat x := tileCode]]"
      let ?s1 = "s\<lparr>runtimeLayers :=
                     updateFirst (\<lambda>l. name l = lname) (\<lambda>l. l\<lparr>tiles := ?g\<rparr>) (runtimeLayers s)\<rparr>"
      have r: "addTile lname x y tileCode s = Some (updateTileInDOM lname x y ?s1)"
        using Inr Some False x y by (simp add: addTile_def Let_def setCell_def)
      have "runtimeGridsOK ?s1"
        unfolding runtimeGridsOK_def
      proof (intro ballI conjI)
        fix l assume "l \<in> set (runtimeLayers ?s1)"
        then have "l \<in> set (updateFirst (\<lambda>l. name l = lname) (\<lambda>l. l\<lparr>tiles := ?g\<rparr>)
                            (runtimeLayers s))"
          by simp
        then have "l \<in> set (runtimeLayers s)
            \<or> (\<exists>l' \<in> set (runtimeLayers s). l = l'\<lparr>tiles := ?g\<rparr>)"
          by (rule updateFirst_set)
        then consider "l \<in> set (runtimeLayers s)"
          | l' where "l' \<in> set (runtimeLayers s)" "l = l'\<lparr>tiles := ?g\<rparr>"
          by blast
        then have "length (tiles l) = nat ?h \<and> (\<forall>row \<in> set (tiles l). length row = nat ?w)"
        proof cases
          case 1
          with assms show ?thesis by (simp add: runtimeGridsOK_def)
        next
          case 2
          have "length ?g = nat ?h"
            using assms lyr by (simp add: runtimeGridsOK_def)
          moreover have "\<forall>row \<in> set ?g. length row = nat ?w"
          proof
            fix row assume "row \<in> set ?g"
            then have "row \<in> set (tiles layer) \<or> row = (tiles layer ! nat y)[nat x := tileCode]"
              by (auto dest: set_update_subset_insert [THEN subsetD])
            then show "length row = nat ?w"
              using assms lyr \<open>tiles layer ! nat y \<in> set (tiles layer)\<close>
              by (auto simp: runtimeGridsOK_def)
          qed
          ultimately show ?thesis using 2 by simp
        qed
        then show "length (tiles l) = nat (height (main (sceneConfig ?s1)))"
          and "\<And>row. row \<in> set (tiles l) \<Longrightarrow> length row = nat (width (main (sceneConfig ?s1)))"
          by simp_all
      qed
      then have "runtimeGridsOK (snd (updateTileInDOM lname x y ?s1))"
        by (simp add: updateTileInDOM_state)
      with r show ?thesis by simp
    qed
  qed
qed

text \<open>When the three checks pass, the cell is written first and the tile is rendered on
  the builder that already holds the new cell; whatever the render throws, the result
  carries that builder.\<close>

lemma addTile_write:
  assumes "runtimeGridsOK s"
    and "validateTileFormat tileCode
      (''addTile: '' @ tileCode @ '' @ ('' @ string_of_int x @ '','' @ string_of_int y @ '')'') = Inr ()"
    and "find (\<lambda>l. name l = lname) (runtimeLayers s) = Some layer"
    and "0 \<le> x" and "x < width (main (sceneConfig s))"
    and "0 \<le> y" and "y < height (main (sceneConfig s))"
  shows "addTile lname x y tileCode s =
           Some (updateTileInDOM lname x y
             (s\<lparr>runtimeLayers :=
                  updateFirst (\<lambda>l. name l = lname)
                    (\<lambda>l. l\<lparr>tiles := (tiles layer)[nat y := (tiles layer ! nat y)[nat x := tileCode]]\<rparr>)
                    (runtimeLayers s)\<rparr>))"
proof -
  have lyr: "layer \<in> set (runtimeLayers s)"
    using assms(3) by (simp add: find_layer_in_set)
  then have y: "nat y < length (tiles layer)"
    using assms by (auto simp: runtimeGridsOK_def)
  then have "tiles layer ! nat y \<in> set (tiles layer)" by simp
  then have x: "nat x < length (tiles layer ! nat y)"
    using assms lyr by (auto simp: runtimeGridsOK_def)
  show ?thesis
    using assms x y by (simp add: addTile_def Let_def setCell_def)
qed

text \<open>
  C5 (the code departs from the claim). \<open>addTile\<close> writes the cell before it renders it.
  With a valid tile code whose prefix names no tileset the three checks pass, the cell is
  set, and the render then throws TILESET_NOT_FOUND: the call fails and the grid of the
  runtime layer is changed. The scene is the one the constructor builds, after
  \<open>createRuntimeLayer\<close>.
\<close>

theorem addTile_fails_after_write:
  "(newSceneBuilder ''#scene'' True emptyConfig :: error + unit SceneBuilder)
     = Inr (sceneWith emptyConfig [] [])
   \<and> map_option (map_prod (map_option err_code) (map tiles \<circ> runtimeLayers))
     (addTile ''furniture'' 0 0 ''ZZ1''
        (snd (createRuntimeLayer ''furniture'' (sceneWith emptyConfig [] []))))
     = Some (Some TILESET_NOT_FOUND, [[[''ZZ1'', ''0'']], [[''0'', ''0'']]])"
proof -
  have "map_option (map_prod (map_option err_code) (map tiles \<circ> runtimeLayers))
          (addTile ''furniture'' 0 0 ''ZZ1''
             (snd (createRuntimeLayer ''furniture'' (sceneWith emptyConfig [] []))))
          = Some (Some TILESET_NOT_FOUND, [[[''ZZ1'', ''0'']], [[''0'', ''0'']]])"
    by code_simp
  with emptyConfig_scene show ?thesis by blast
qed

subsection \<open>Merged props\<close>








subsection \<open>Hover tracking\<close>

text \<open>Each handler run makes the calls of the spec's step, given that the stored pair is the
  hovered cell or the marker; the events of the spec's steps alternate.\<close>

lemma hoverStep_refines:
  assumes "lastHoveredTile s = lastOf cur" and "validCell cur" and "validPointer e"
  shows "hoverStep e s =
           (concat (map (dispatch (eventSubscriber s)) (fst (specHoverStep e cur))),
            s\<lparr>lastHoveredTile := lastOf (snd (specHoverStep e cur))\<rparr>)
         \<and> validCell (snd (specHoverStep e cur))"
proof (cases e)
  case MouseLeave
  with assms show ?thesis
    by (cases cur) (auto simp: onmouseleave_def hoverEndCalls_def lastOf_def validCell_def dispatch_def)
next
  case (MouseMove tx ty)
  show ?thesis
  proof (cases tx)
    case None
    with MouseMove assms show ?thesis
      by (simp add: onmousemove_def)
  next
    case (Some x)
    note tx = this
    show ?thesis
    proof (cases ty)
      case None
      with MouseMove tx assms show ?thesis
        by (simp add: onmousemove_def)
    next
      case (Some y)
      with MouseMove tx assms show ?thesis
        by (cases cur)
          (auto simp: onmousemove_def hoverEndCalls_def lastOf_def validCell_def dispatch_def)
    qed
  qed
qed

lemma hoverStep_subscribers:
  "eventSubscriber (snd (hoverStep e s)) = eventSubscriber s"
  by (cases e) (auto simp: onmousemove_def onmouseleave_def split: option.splits)

lemma specHoverStep_alternating:
  "alternating (snd (specHoverStep e cur)) evs \<Longrightarrow>
     alternating cur (fst (specHoverStep e cur) @ evs)"
  by (induction e cur rule: specHoverStep.induct) (auto split: if_splits)

lemma specHoverRun_alternating: "alternating cur (fst (specHoverRun es cur))"
proof (induction es arbitrary: cur)
  case Nil
  show ?case by simp
next
  case (Cons e es)
  have "alternating (snd (specHoverStep e cur)) (fst (specHoverRun es (snd (specHoverStep e cur))))"
    by (rule Cons.IH)
  then have "alternating cur
      (fst (specHoverStep e cur) @ fst (specHoverRun es (snd (specHoverStep e cur))))"
    by (rule specHoverStep_alternating)
  then show ?case
    by (simp add: split_beta Let_def)
qed

lemma hoverRun_refines:
  "lastHoveredTile s = lastOf cur \<Longrightarrow> validCell cur \<Longrightarrow> list_all validPointer es \<Longrightarrow>
     hoverRun es s =
       (concat (map (dispatch (eventSubscriber s)) (fst (specHoverRun es cur))),
        s\<lparr>lastHoveredTile := lastOf (snd (specHoverRun es cur))\<rparr>)"
proof (induction es arbitrary: s cur)
  case Nil
  then show ?case by simp
next
  case (Cons e es)
  let ?s1 = "s\<lparr>lastHoveredTile := lastOf (snd (specHoverStep e cur))\<rparr>"
  from Cons.prems have st: "hoverStep e s =
           (concat (map (dispatch (eventSubscriber s)) (fst (specHoverStep e cur))), ?s1)"
    and v1: "validCell (snd (specHoverStep e cur))"
    using hoverStep_refines [of s cur e] by simp_all
  have "hoverRun es ?s1 =
       (concat (map (dispatch (eventSubscriber ?s1)) (fst (specHoverRun es (snd (specHoverStep e cur))))),
        ?s1\<lparr>lastHoveredTile := lastOf (snd (specHoverRun es (snd (specHoverStep e cur))))\<rparr>)"
    using Cons.prems v1 by (intro Cons.IH) simp_all
  with st show ?case
    by (simp add: split_beta Let_def)
qed

text \<open>
  C9. A pointer move onto the last-hovered cell calls no subscriber and changes nothing.
  A move to another cell calls the hover-end subscribers once each for the previous cell
  (none when no cell was hovered), then the hover subscribers once each for the new cell,
  which becomes the last-hovered cell. Leaving the wrapper calls the hover-end
  subscribers once each for the last-hovered cell, if there is one, and clears it. Over
  any sequence of pointer events whose targets carry cell indices that are not negative,
  from a builder with no hovered cell, the calls are those of the spec's hover tracking,
  whose hover-starts and hover-ends alternate, each hover-end being for the cell of the
  hover-start before it.
\<close>

theorem hover_tracking:
  "(lastHoveredTile s = (x, y) \<longrightarrow> onmousemove (Some x) (Some y) s = ([], s))
   \<and> (lastHoveredTile s = (- 1, - 1) \<and> (x, y) \<noteq> (- 1, - 1) \<longrightarrow>
        onmousemove (Some x) (Some y) s
          = (map (\<lambda>cb. (cb, TileHover, x, y)) (onTileHover (eventSubscriber s)),
             s\<lparr>lastHoveredTile := (x, y)\<rparr>))
   \<and> (lastHoveredTile s = (px, py) \<and> 0 \<le> px \<and> 0 \<le> py \<and> (px, py) \<noteq> (x, y) \<longrightarrow>
        onmousemove (Some x) (Some y) s
          = (map (\<lambda>cb. (cb, TileHoverEnd, px, py)) (onTileHoverEnd (eventSubscriber s))
               @ map (\<lambda>cb. (cb, TileHover, x, y)) (onTileHover (eventSubscriber s)),
             s\<lparr>lastHoveredTile := (x, y)\<rparr>))
   \<and> (lastHoveredTile s = (px, py) \<and> 0 \<le> px \<and> 0 \<le> py \<longrightarrow>
        onmouseleave s
          = (map (\<lambda>cb. (cb, TileHoverEnd, px, py)) (onTileHoverEnd (eventSubscriber s)),
             s\<lparr>lastHoveredTile := (- 1, - 1)\<rparr>))
   \<and> (lastHoveredTile s = (- 1, - 1) \<longrightarrow> onmouseleave s = ([], s))
   \<and> (lastHoveredTile s = (- 1, - 1) \<and> list_all validPointer es \<longrightarrow>
        fst (hoverRun es s)
          = concat (map (dispatch (eventSubscriber s)) (fst (specHoverRun es None)))
        \<and> alternating None (fst (specHoverRun es None)))"
proof (intro conjI impI)
  assume "lastHoveredTile s = (x, y)"
  then show "onmousemove (Some x) (Some y) s = ([], s)"
    by (simp add: onmousemove_def)
next
  assume "lastHoveredTile s = (- 1, - 1) \<and> (x, y) \<noteq> (- 1, - 1)"
  then show "onmousemove (Some x) (Some y) s
          = (map (\<lambda>cb. (cb, TileHover, x, y)) (onTileHover (eventSubscriber s)),
             s\<lparr>lastHoveredTile := (x, y)\<rparr>)"
    by (auto simp: onmousemove_def hoverEndCalls_def)
next
  assume "lastHoveredTile s = (px, py) \<and> 0 \<le> px \<and> 0 \<le> py \<and> (px, py) \<noteq> (x, y)"
  then show "onmousemove (Some x) (Some y) s
          = (map (\<lambda>cb. (cb, TileHoverEnd, px, py)) (onTileHoverEnd (eventSubscriber s))
               @ map (\<lambda>cb. (cb, TileHover, x, y)) (onTileHover (eventSubscriber s)),
             s\<lparr>lastHoveredTile := (x, y)\<rparr>)"
    by (auto simp: onmousemove_def hoverEndCalls_def)
next
  assume "lastHoveredTile s = (px, py) \<and> 0 \<le> px \<and> 0 \<le> py"
  then show "onmouseleave s
          = (map (\<lambda>cb. (cb, TileHoverEnd, px, py)) (onTileHoverEnd (eventSubscriber s)),
             s\<lparr>lastHoveredTile := (- 1, - 1)\<rparr>)"
    by (auto simp: onmouseleave_def hoverEndCalls_def)
next
  assume a: "lastHoveredTile s = (- 1, - 1)"
  then have "s\<lparr>lastHoveredTile := (- 1, - 1)\<rparr> = s"
    by (metis SceneBuilder.surjective SceneBuilder.update_convs(5))
  with a show "onmouseleave s = ([], s)"
    by (simp add: onmouseleave_def hoverEndCalls_def)
next
  assume a: "lastHoveredTile s = (- 1, - 1) \<and> list_all validPointer es"
  then have "hoverRun es s =
       (concat (map (dispatch (eventSubscriber s)) (fst (specHoverRun es None))),
        s\<lparr>lastHoveredTile := lastOf (snd (specHoverRun es None))\<rparr>)"
    by (intro hoverRun_refines) (simp_all add: lastOf_def validCell_def)
  then show "fst (hoverRun es s)
          = concat (map (dispatch (eventSubscriber s)) (fst (specHoverRun es None)))"
    by simp
next
  show "alternating None (fst (specHoverRun es None))"
    by (rule specHoverRun_alternating)
qed

theorem hover_tracking_witness:
  "onmousemove (Some 0) (Some 0) (hoverScene\<lparr>lastHoveredTile := (0, 0)\<rparr>)
     = ([], hoverScene\<lparr>lastHoveredTile := (0, 0)\<rparr>)
   \<and> onmousemove (Some 0) (Some 0) hoverScene
     = ([(1, TileHover, 0, 0)], hoverScene\<lparr>lastHoveredTile := (0, 0)\<rparr>)
   \<and> onmousemove (Some 1) (Some 0) (hoverScene\<lparr>lastHoveredTile := (0, 0)\<rparr>)
     = ([(2, TileHoverEnd, 0, 0), (1, TileHover, 1, 0)], hoverScene\<lparr>lastHoveredTile := (1, 0)\<rparr>)
   \<and> onmouseleave (hoverScene\<lparr>lastHoveredTile := (1, 0)\<rparr>)
     = ([(2, TileHoverEnd, 1, 0)], hoverScene)
   \<and> onmouseleave hoverScene = ([], hoverScene)
   \<and> fst (hoverRun [MouseMove (Some 0) (Some 0), MouseMove (Some 0) (Some 0),
                     MouseMove (Some 1) (Some 0), MouseLeave] hoverScene)
     = [(1, TileHover, 0, 0), (2, TileHoverEnd, 0, 0), (1, TileHover, 1, 0),
        (2, TileHoverEnd, 1, 0)]
   \<and> alternating None
       [(TileHover, 0, 0), (TileHoverEnd, 0, 0), (TileHover, 1, 0), (TileHoverEnd, 1, 0)]"
  using hover_tracking [of "hoverScene\<lparr>lastHoveredTile := (0, 0)\<rparr>" 0 0 0 0 "[]"]
    hover_tracking [of hoverScene 0 0 0 0
      "[MouseMove (Some 0) (Some 0), MouseMove (Some 0) (Some 0),
        MouseMove (Some 1) (Some 0), MouseLeave]"]
    hover_tracking [of "hoverScene\<lparr>lastHoveredTile := (0, 0)\<rparr>" 1 0 0 0 "[]"]
    hover_tracking [of "hoverScene\<lparr>lastHoveredTile := (1, 0)\<rparr>" 1 0 1 0 "[]"]
  by (simp add: hoverScene_def dispatch_def)

end
